theory Spec2Isabelle
  imports Complex_Main
begin

section \<open>Scalars\<close>

text \<open>
  A tensor element is a float. Finite values are modelled as exact reals (no rounding, no
  overflow), so the only non-finite value that the operations below can produce from finite
  data is the not-a-number of \<open>0 / 0\<close>, which arises when the mean of an empty tensor is
  taken. \<open>NaN\<close> is absorbing for every arithmetic operation, also for a product with \<open>0\<close>.
  Infinite elements are not represented. The rounding of a result, the underflow of a small
  one to \<open>0\<close> and the overflow of a large one to an infinity are therefore outside the
  model, and the properties below are chosen so as not to depend on them: of the result of
  a computation on arbitrary finite data they assert neither that it is finite nor that it
  is different from \<open>0\<close>, and they rearrange no sum or product of the program.
  A sum of Python is formed in Python's order; in which order a reduction of the library (a
  mean, a matrix product) adds its terms is the library's matter and is not modelled.
\<close>

datatype fl = Fin real | NaN

instantiation fl :: "{zero, one, plus, minus, times, abs}"
begin

definition zero_fl :: fl where
  "zero_fl = Fin 0"

definition one_fl :: fl where
  "one_fl = Fin 1"

fun plus_fl :: "fl \<Rightarrow> fl \<Rightarrow> fl" where
  "plus_fl (Fin a) (Fin b) = Fin (a + b)"
| "plus_fl _ _ = NaN"

fun minus_fl :: "fl \<Rightarrow> fl \<Rightarrow> fl" where
  "minus_fl (Fin a) (Fin b) = Fin (a - b)"
| "minus_fl _ _ = NaN"

fun times_fl :: "fl \<Rightarrow> fl \<Rightarrow> fl" where
  "times_fl (Fin a) (Fin b) = Fin (a * b)"
| "times_fl _ _ = NaN"

fun abs_fl :: "fl \<Rightarrow> fl" where
  "abs_fl (Fin a) = Fin \<bar>a\<bar>"
| "abs_fl NaN = NaN"

instance ..

end

text \<open>
  With \<open>NaN\<close> absorbing, addition and multiplication are still associative and
  commutative with units \<open>0\<close> and \<open>1\<close>, and multiplication distributes over addition;
  \<open>0\<close> does not annihilate, since \<open>0 * NaN = NaN\<close>.
\<close>

instance fl :: comm_monoid_add
proof
  fix x y z :: fl
  show "x + y + z = x + (y + z)"
    by (cases x; cases y; cases z; simp)
  show "x + y = y + x"
    by (cases x; cases y; simp)
  show "0 + x = x"
    by (cases x; simp add: zero_fl_def)
qed

instance fl :: comm_monoid_mult
proof
  fix x y z :: fl
  show "x * y * z = x * (y * z)"
    by (cases x; cases y; cases z; simp)
  show "x * y = y * x"
    by (cases x; cases y; simp)
  show "1 * x = x"
    by (cases x; simp add: one_fl_def)
qed

instance fl :: comm_semiring
proof
  fix x y z :: fl
  show "(x + y) * z = x * z + y * z"
    by (cases x; cases y; cases z; simp add: distrib_right)
qed

text \<open>\<open>torch.square\<close> on one element.\<close>

definition fsquare :: "fl \<Rightarrow> fl" where
  "fsquare a = a * a"

text \<open>
  Division of a float by a Python integer count. Every division by \<open>0\<close> that the
  program lets a tensor perform has a numerator that is an empty sum, so that its result
  is \<open>0 / 0 = NaN\<close>.
\<close>

fun fdivn :: "fl \<Rightarrow> nat \<Rightarrow> fl" where
  "fdivn (Fin a) n = (if n = 0 then NaN else Fin (a / real n))"
| "fdivn NaN n = NaN"

text \<open>Python's builtin \<open>sum\<close>: it starts from the integer \<open>0\<close> and adds from the left.\<close>

definition py_sum :: "fl list \<Rightarrow> fl" where
  "py_sum xs = foldl (+) 0 xs"

definition is_finite :: "fl \<Rightarrow> bool" where
  "is_finite a = (case a of Fin _ \<Rightarrow> True | NaN \<Rightarrow> False)"

text \<open>The real number that a finite float stands for.\<close>

definition fl_val :: "fl \<Rightarrow> real" where
  "fl_val a = (case a of Fin r \<Rightarrow> r | NaN \<Rightarrow> 0)"

section \<open>Tensors\<close>

text \<open>
  A tensor is its shape and its elements in row-major order, as a contiguous PyTorch tensor
  stores them. Every tensor that the program can build has as many elements as its
  shape says (\<open>wf_tensor\<close>).
\<close>

record tensor =
  shape :: "nat list"
  data :: "fl list"

datatype error = IndexError | ZeroDivisionError | RuntimeError | ValueError | TypeError

definition numel :: "tensor \<Rightarrow> nat" where
  "numel t = prod_list (shape t)"

definition wf_tensor :: "tensor \<Rightarrow> bool" where
  "wf_tensor t = (length (data t) = numel t)"

text \<open>All the multi-indices of a shape, in row-major order.\<close>

fun indices :: "nat list \<Rightarrow> nat list list" where
  "indices [] = [[]]"
| "indices (d # ds) = concat (map (\<lambda>i. map ((#) i) (indices ds)) [0..<d])"

text \<open>The position of a multi-index in the row-major storage.\<close>

fun ravel :: "nat list \<Rightarrow> nat list \<Rightarrow> nat" where
  "ravel (d # ds) (i # is) = i * prod_list ds + ravel ds is"
| "ravel _ _ = 0"

definition elem :: "tensor \<Rightarrow> nat list \<Rightarrow> fl" where
  "elem t idx = data t ! ravel (shape t) idx"

text \<open>The tensor of a given shape whose element at each multi-index is given by a function.\<close>

definition tabulate :: "nat list \<Rightarrow> (nat list \<Rightarrow> fl) \<Rightarrow> tensor" where
  "tabulate s f = \<lparr>shape = s, data = map f (indices s)\<rparr>"

text \<open>Elementwise operations and the reductions \<open>.mean()\<close>.\<close>

definition tmap :: "(fl \<Rightarrow> fl) \<Rightarrow> tensor \<Rightarrow> tensor" where
  "tmap f t = \<lparr>shape = shape t, data = map f (data t)\<rparr>"

definition tsquare :: "tensor \<Rightarrow> tensor" where
  "tsquare t = tmap fsquare t"

definition tabs :: "tensor \<Rightarrow> tensor" where
  "tabs t = tmap abs t"

definition tdivn :: "tensor \<Rightarrow> nat \<Rightarrow> tensor" where
  "tdivn t n = tmap (\<lambda>a. fdivn a n) t"

definition tmean :: "tensor \<Rightarrow> fl" where
  "tmean t = fdivn (sum_list (data t)) (numel t)"

text \<open>
  Slicing along one dimension: \<open>slice_from1 k\<close> is the slice \<open>1:\<close> and
  \<open>slice_butlast k\<close> the slice \<open>:-1\<close> at position \<open>k\<close>, every other dimension
  taken whole. A dimension of size \<open>0\<close> stays empty under both.
\<close>

definition slice_from1 :: "nat \<Rightarrow> tensor \<Rightarrow> tensor" where
  "slice_from1 k t =
     tabulate ((shape t)[k := shape t ! k - 1]) (\<lambda>idx. elem t (idx[k := idx ! k + 1]))"

definition slice_butlast :: "nat \<Rightarrow> tensor \<Rightarrow> tensor" where
  "slice_butlast k t =
     tabulate ((shape t)[k := shape t ! k - 1]) (\<lambda>idx. elem t idx)"

text \<open>
  Broadcasting of two shapes, as PyTorch does it: the shapes are aligned at their last
  dimension, the shorter one is padded with ones, and two sizes are compatible when they are
  equal or one of them is \<open>1\<close>.
\<close>

fun bdims :: "nat list \<Rightarrow> nat list \<Rightarrow> nat list option" where
  "bdims [] [] = Some []"
| "bdims (a # as) (b # bs) =
     (if a = b \<or> b = 1 then map_option ((#) a) (bdims as bs)
      else if a = 1 then map_option ((#) b) (bdims as bs)
      else None)"
| "bdims _ _ = None"

definition pad_shape :: "nat \<Rightarrow> nat list \<Rightarrow> nat list" where
  "pad_shape n s = replicate (n - length s) 1 @ s"

definition broadcast_shapes :: "nat list \<Rightarrow> nat list \<Rightarrow> nat list option" where
  "broadcast_shapes s1 s2 =
     (let n = max (length s1) (length s2) in bdims (pad_shape n s1) (pad_shape n s2))"

text \<open>The element that a tensor contributes at a multi-index of the broadcast shape.\<close>

definition belem :: "tensor \<Rightarrow> nat list \<Rightarrow> fl" where
  "belem t idx =
     elem t (map2 (\<lambda>d i. if d = 1 then 0 else i) (shape t)
                  (drop (length idx - length (shape t)) idx))"

definition tsub :: "tensor \<Rightarrow> tensor \<Rightarrow> error + tensor" where
  "tsub a b =
     (case broadcast_shapes (shape a) (shape b) of
        None \<Rightarrow> Inl RuntimeError
      | Some s \<Rightarrow> Inr (tabulate s (\<lambda>idx. belem a idx - belem b idx)))"

text \<open>\<open>dst.copy_(src)\<close>: the source is broadcast to the shape of the destination.\<close>

definition copy_into :: "tensor \<Rightarrow> tensor \<Rightarrow> error + tensor" where
  "copy_into dst src =
     (if broadcast_shapes (shape dst) (shape src) = Some (shape dst)
      then Inr (tabulate (shape dst) (\<lambda>idx. belem src idx))
      else Inl RuntimeError)"

definition reshape :: "tensor \<Rightarrow> nat list \<Rightarrow> error + tensor" where
  "reshape t s =
     (if prod_list s = numel t then Inr \<lparr>shape = s, data = data t\<rparr> else Inl RuntimeError)"

text \<open>\<open>X.T\<close> reverses the dimensions; on a matrix it is the transpose.\<close>

definition transpose_T :: "tensor \<Rightarrow> tensor" where
  "transpose_T t = tabulate (rev (shape t)) (\<lambda>idx. elem t (rev idx))"

text \<open>
  \<open>torch.matmul\<close> on two matrices, the only way \<open>gram\<close> calls it (the batched and
  vector forms of the library function are not modelled).
\<close>

definition matmul :: "tensor \<Rightarrow> tensor \<Rightarrow> error + tensor" where
  "matmul a b =
     (case (shape a, shape b) of
        ([m, k], [k', n]) \<Rightarrow>
          if k = k'
          then Inr (tabulate [m, n]
                 (\<lambda>idx. sum_list (map (\<lambda>j. elem a [idx ! 0, j] * elem b [j, idx ! 1]) [0..<k])))
          else Inl RuntimeError
      | _ \<Rightarrow> Inl RuntimeError)"

section \<open>Errors as values\<close>

definition ebind :: "error + 'a \<Rightarrow> ('a \<Rightarrow> error + 'b) \<Rightarrow> error + 'b" where
  "ebind r f = (case r of Inl e \<Rightarrow> Inl e | Inr x \<Rightarrow> f x)"

text \<open>A list comprehension whose body can raise: the first failure ends it.\<close>

fun traverse :: "('a \<Rightarrow> error + 'b) \<Rightarrow> 'a list \<Rightarrow> error + 'b list" where
  "traverse f [] = Inr []"
| "traverse f (x # xs) =
     ebind (f x) (\<lambda>y. ebind (traverse f xs) (\<lambda>ys. Inr (y # ys)))"

section \<open>The loss functions\<close>

text \<open>\<open>detach\<close> leaves the values of a tensor as they are.\<close>

definition content_loss :: "tensor \<Rightarrow> tensor \<Rightarrow> error + fl" where
  "content_loss Y_hat Y = ebind (tsub Y_hat Y) (\<lambda>d. Inr (tmean (tsquare d)))"

definition gram :: "tensor \<Rightarrow> error + tensor" where
  "gram X =
     (if length (shape X) < 2 then Inl IndexError
      else let num_channels = shape X ! 1 in
        if num_channels = 0 then Inl ZeroDivisionError
        else let n = numel X div num_channels in
          ebind (reshape X [num_channels, n]) (\<lambda>X2.
          ebind (matmul X2 (transpose_T X2)) (\<lambda>P. Inr (tdivn P n))))"

definition style_loss :: "tensor \<Rightarrow> tensor \<Rightarrow> error + fl" where
  "style_loss Y_hat gram_Y =
     ebind (gram Y_hat) (\<lambda>G.
     ebind (tsub G gram_Y) (\<lambda>d. Inr (fdivn (tmean (tsquare d)) 4)))"

definition tv_loss :: "tensor \<Rightarrow> error + fl" where
  "tv_loss Y_hat =
     (if length (shape Y_hat) < 4 then Inl IndexError
      else
        ebind (tsub (slice_from1 2 Y_hat) (slice_butlast 2 Y_hat)) (\<lambda>dv.
        ebind (tsub (slice_from1 3 Y_hat) (slice_butlast 3 Y_hat)) (\<lambda>dh.
          Inr (Fin (1 / 2) * (tmean (tabs dv) + tmean (tabs dh))))))"

text \<open>The weights of \<open>Gatys.py\<close> and of \<open>main.py\<close>.\<close>

definition CONTENT_WEIGHT :: fl where "CONTENT_WEIGHT = Fin 8"
definition STYLE_WEIGHT :: fl where "STYLE_WEIGHT = Fin 5000"
definition TV_WEIGHT :: fl where "TV_WEIGHT = Fin 80"

definition content_weight :: fl where "content_weight = Fin 8"
definition style_weight :: fl where "style_weight = Fin 5000"
definition tv_weight :: fl where "tv_weight = Fin 0"

text \<open>The two list comprehensions of \<open>compute_loss\<close>, with the weight of the file.\<close>

definition contents_l_of :: "fl \<Rightarrow> tensor list \<Rightarrow> tensor list \<Rightarrow> error + fl list" where
  "contents_l_of w contents_Y_hat contents_Y =
     traverse (\<lambda>(Y_hat, Y). ebind (content_loss Y_hat Y) (\<lambda>l. Inr (l * w)))
       (zip contents_Y_hat contents_Y)"

definition styles_l_of :: "fl \<Rightarrow> tensor list \<Rightarrow> tensor list \<Rightarrow> error + fl list" where
  "styles_l_of w styles_Y_hat styles_Y_gram =
     traverse (\<lambda>(Y_hat, Y). ebind (style_loss Y_hat Y) (\<lambda>l. Inr (l * w)))
       (zip styles_Y_hat styles_Y_gram)"

text \<open>
  The style term of the total: \<open>sum(styles_l) / len(styles_l)\<close> in \<open>Gatys.py\<close>, where
  the sum of no loss is the integer \<open>0\<close> and \<open>0 / 0\<close> raises, and \<open>sum(styles_l) / 5\<close> in
  \<open>main.py\<close>.
\<close>

definition style_term_Gatys :: "fl list \<Rightarrow> error + fl" where
  "style_term_Gatys styles_l =
     (if length styles_l = 0 then Inl ZeroDivisionError
      else Inr (fdivn (py_sum styles_l) (length styles_l)))"

definition style_term_main :: "fl list \<Rightarrow> error + fl" where
  "style_term_main styles_l = Inr (fdivn (py_sum styles_l) 5)"

definition compute_loss_Gatys ::
  "tensor \<Rightarrow> tensor list \<Rightarrow> tensor list \<Rightarrow> tensor list \<Rightarrow> tensor list
     \<Rightarrow> error + (fl list \<times> fl list \<times> fl \<times> fl)" where
  "compute_loss_Gatys X contents_Y_hat styles_Y_hat contents_Y styles_Y_gram =
     ebind (contents_l_of CONTENT_WEIGHT contents_Y_hat contents_Y) (\<lambda>contents_l.
     ebind (styles_l_of STYLE_WEIGHT styles_Y_hat styles_Y_gram) (\<lambda>styles_l.
     ebind (tv_loss X) (\<lambda>tv. let tv_l = tv * TV_WEIGHT in
     ebind (style_term_Gatys styles_l) (\<lambda>st.
       Inr (contents_l, styles_l, tv_l, st + py_sum contents_l + tv_l)))))"

definition compute_loss_main ::
  "tensor \<Rightarrow> tensor list \<Rightarrow> tensor list \<Rightarrow> tensor list \<Rightarrow> tensor list
     \<Rightarrow> error + (fl list \<times> fl list \<times> fl \<times> fl)" where
  "compute_loss_main X contents_Y_hat styles_Y_hat contents_Y styles_Y_gram =
     ebind (contents_l_of content_weight contents_Y_hat contents_Y) (\<lambda>contents_l.
     ebind (styles_l_of style_weight styles_Y_hat styles_Y_gram) (\<lambda>styles_l.
     ebind (tv_loss X) (\<lambda>tv. let tv_l = tv * tv_weight in
     ebind (style_term_main styles_l) (\<lambda>st.
       Inr (contents_l, styles_l, tv_l, st + py_sum contents_l + py_sum [tv_l])))))"


definition style_part_main :: "tensor list \<Rightarrow> tensor list \<Rightarrow> error + fl" where
  "style_part_main styles_Y_hat styles_Y_gram =
     ebind (styles_l_of style_weight styles_Y_hat styles_Y_gram) style_term_main"

text \<open>
  The per-layer losses before they are weighted: the statement about the total is made
  in terms of them.
\<close>

definition content_losses :: "tensor list \<Rightarrow> tensor list \<Rightarrow> error + fl list" where
  "content_losses contents_Y_hat contents_Y =
     traverse (\<lambda>(Y_hat, Y). content_loss Y_hat Y) (zip contents_Y_hat contents_Y)"

definition style_losses :: "tensor list \<Rightarrow> tensor list \<Rightarrow> error + fl list" where
  "style_losses styles_Y_hat styles_Y_gram =
     traverse (\<lambda>(Y_hat, Y). style_loss Y_hat Y) (zip styles_Y_hat styles_Y_gram)"

section \<open>The feature extractor\<close>

text \<open>
  A layer of the network is a function on tensors that can raise (a pooling layer on too
  small an input does). The layers of the pretrained network are not part of the program:
  they are a parameter.
\<close>

type_synonym layer = "tensor \<Rightarrow> error + tensor"

text \<open>Python's \<open>max\<close> on a list of integers: \<open>ValueError\<close> on the empty list.\<close>

fun py_max :: "int list \<Rightarrow> error + int" where
  "py_max [] = Inl ValueError"
| "py_max (x # xs) = Inr (foldl max x xs)"

text \<open>\<open>features[i]\<close> for an index \<open>i\<close> of a \<open>range\<close>, which is never negative.\<close>

definition get_layer :: "layer list \<Rightarrow> nat \<Rightarrow> error + layer" where
  "get_layer features i = (if i < length features then Inr (features ! i) else Inl IndexError)"

text \<open>
  The truncated network, built when the module is loaded:
  \<open>nn.Sequential(*[features[i] for i in range(max(Content_Layers + Style_Layers) + 1)])\<close>.
\<close>

definition Incomplete_CNN :: "layer list \<Rightarrow> int list \<Rightarrow> int list \<Rightarrow> error + layer list" where
  "Incomplete_CNN features Content_Layers Style_Layers =
     ebind (py_max (Content_Layers @ Style_Layers)) (\<lambda>m.
       traverse (get_layer features) [0..<nat (m + 1)])"

text \<open>
  The loop of \<open>extract_features\<close> over \<open>range(len(net))\<close>: \<open>i\<close> is the index of the
  next layer, \<open>contents\<close> and \<open>styles\<close> are the lists built so far.
\<close>

fun extract_loop ::
  "nat \<Rightarrow> layer list \<Rightarrow> tensor \<Rightarrow> int list \<Rightarrow> int list \<Rightarrow> tensor list \<Rightarrow> tensor list
     \<Rightarrow> error + (tensor list \<times> tensor list)" where
  "extract_loop i [] X content_layers style_layers contents styles = Inr (contents, styles)"
| "extract_loop i (f # fs) X content_layers style_layers contents styles =
     ebind (f X) (\<lambda>X'.
       let styles' = (if int i \<in> set style_layers then styles @ [X'] else styles);
           contents' = (if int i \<in> set content_layers then contents @ [X'] else contents)
       in extract_loop (i + 1) fs X' content_layers style_layers contents' styles')"

definition extract_features ::
  "layer list \<Rightarrow> tensor \<Rightarrow> int list \<Rightarrow> int list \<Rightarrow> error + (tensor list \<times> tensor list)" where
  "extract_features net X content_layers style_layers =
     extract_loop 0 net X content_layers style_layers [] []"

section \<open>The synthesized image and the training loop\<close>

text \<open>
  The optimizer, the learning-rate scheduler, the random initialisation and the rendering of
  an image snapshot belong to the library. They are parameters of the model: an optimizer
  step receives the loss as a function of the image (the closure, or the graph that
  \<open>backward\<close> differentiates), the image and the state of the optimizer, and returns the
  moved image and the new state.
\<close>

datatype optimizer_kind = LBFGS | Adam

record 'o torch =
  mk_trainer :: "optimizer_kind \<Rightarrow> real \<Rightarrow> error + 'o"
  mk_scheduler :: "'o \<Rightarrow> int \<Rightarrow> error + 'o"
  step :: "(tensor \<Rightarrow> error + fl) \<Rightarrow> tensor \<Rightarrow> 'o \<Rightarrow> error + (tensor \<times> 'o)"
  scheduler_step :: "'o \<Rightarrow> error + 'o"
  rand :: "nat list \<Rightarrow> fl list"
  snapshot :: "tensor \<Rightarrow> error + tensor"

record 'o trainer =
  kind :: optimizer_kind
  ostate :: 'o

text \<open>The module-level network and layer lists that \<open>train\<close> reads.\<close>

record globals =
  net :: "layer list"
  content_layers :: "int list"
  style_layers :: "int list"

text \<open>What the run writes to the summary writer: \<open>add_scalar\<close> and \<open>add_image\<close>.\<close>

datatype log_entry = Scalar nat fl | Image nat tensor

text \<open>
  \<open>SynthesizedImage(img_shape).weight\<close>: random numbers of the given shape in \<open>Gatys.py\<close>,
  the preprocessed content image of the module in \<open>main.py\<close>. For the shape of a tensor
  of no dimension, \<open>torch.rand(*img_shape)\<close> is a call without an argument, which raises
  \<open>TypeError\<close>.
\<close>

definition SynthesizedImage_Gatys :: "'o torch \<Rightarrow> nat list \<Rightarrow> error + tensor" where
  "SynthesizedImage_Gatys T img_shape =
     (if img_shape = [] then Inl TypeError
      else Inr \<lparr>shape = img_shape, data = rand T img_shape\<rparr>)"

definition SynthesizedImage_main :: "tensor \<Rightarrow> nat list \<Rightarrow> tensor" where
  "SynthesizedImage_main content_pre img_shape = content_pre"

definition get_inits_Gatys ::
  "'o torch \<Rightarrow> tensor \<Rightarrow> real \<Rightarrow> tensor list \<Rightarrow> error + (tensor \<times> tensor list \<times> 'o trainer)" where
  "get_inits_Gatys T X lr styles_Y =
     ebind (SynthesizedImage_Gatys T (shape X)) (\<lambda>gen_img.
     ebind (copy_into gen_img X) (\<lambda>weight.
     ebind (mk_trainer T LBFGS lr) (\<lambda>st.
     ebind (traverse gram styles_Y) (\<lambda>styles_Y_gram.
       Inr (weight, styles_Y_gram, \<lparr>kind = LBFGS, ostate = st\<rparr>)))))"

definition get_inits_main ::
  "'o torch \<Rightarrow> tensor \<Rightarrow> tensor \<Rightarrow> real \<Rightarrow> tensor list
     \<Rightarrow> error + (tensor \<times> tensor list \<times> 'o trainer)" where
  "get_inits_main T content_pre X lr styles_Y =
     ebind (copy_into (SynthesizedImage_main content_pre (shape X)) X) (\<lambda>weight.
     ebind (mk_trainer T Adam lr) (\<lambda>st.
     ebind (traverse gram styles_Y) (\<lambda>styles_Y_gram.
       Inr (weight, styles_Y_gram, \<lparr>kind = Adam, ostate = st\<rparr>))))"

text \<open>The total loss of an image: feature extraction, then \<open>compute_loss\<close>.\<close>

definition total_loss_Gatys :: "globals \<Rightarrow> tensor list \<Rightarrow> tensor list \<Rightarrow> tensor \<Rightarrow> error + fl" where
  "total_loss_Gatys G contents_Y styles_Y_gram X =
     ebind (extract_features (net G) X (content_layers G) (style_layers G)) (\<lambda>(contents_Y_hat, styles_Y_hat).
     ebind (compute_loss_Gatys X contents_Y_hat styles_Y_hat contents_Y styles_Y_gram) (\<lambda>(_, _, _, ll).
       Inr ll))"

definition total_loss_main :: "globals \<Rightarrow> tensor list \<Rightarrow> tensor list \<Rightarrow> tensor \<Rightarrow> error + fl" where
  "total_loss_main G contents_Y styles_Y_gram X =
     ebind (extract_features (net G) X (content_layers G) (style_layers G)) (\<lambda>(contents_Y_hat, styles_Y_hat).
     ebind (compute_loss_main X contents_Y_hat styles_Y_hat contents_Y styles_Y_gram) (\<lambda>(_, _, _, ll).
       Inr ll))"

text \<open>
  One iteration of the loop of \<open>train\<close> in \<open>Gatys.py\<close>. With L-BFGS the optimizer steps
  with the closure and the loss is computed again on the moved image; otherwise the loss is
  computed, the optimizer steps, and the loss of before the step is logged.
\<close>

definition epoch_Gatys ::
  "'o torch \<Rightarrow> globals \<Rightarrow> tensor list \<Rightarrow> tensor list \<Rightarrow> nat
     \<Rightarrow> tensor \<times> 'o trainer \<times> log_entry list \<Rightarrow> error + (tensor \<times> 'o trainer \<times> log_entry list)" where
  "epoch_Gatys T G contents_Y styles_Y_gram epoch s =
     (case s of (X, trainer, logs) \<Rightarrow>
       ebind
         (if kind trainer = LBFGS then
            ebind (step T (total_loss_Gatys G contents_Y styles_Y_gram) X (ostate trainer)) (\<lambda>(X', st).
            ebind (total_loss_Gatys G contents_Y styles_Y_gram X') (\<lambda>loss.
              Inr (X', st, logs @ [Scalar epoch loss])))
          else
            ebind (total_loss_Gatys G contents_Y styles_Y_gram X) (\<lambda>loss.
            ebind (step T (total_loss_Gatys G contents_Y styles_Y_gram) X (ostate trainer)) (\<lambda>(X', st).
              Inr (X', st, logs @ [Scalar epoch loss]))))
         (\<lambda>(X', st, logs').
            ebind (if (epoch + 1) mod 20 = 0
                   then ebind (snapshot T X') (\<lambda>img. Inr (logs' @ [Image ((epoch + 1) div 20) img]))
                   else Inr logs') (\<lambda>logs''.
            ebind (scheduler_step T st) (\<lambda>st'.
              Inr (X', trainer\<lparr>ostate := st'\<rparr>, logs'')))))"

definition epoch_main ::
  "'o torch \<Rightarrow> globals \<Rightarrow> tensor list \<Rightarrow> tensor list \<Rightarrow> nat
     \<Rightarrow> tensor \<times> 'o trainer \<times> log_entry list \<Rightarrow> error + (tensor \<times> 'o trainer \<times> log_entry list)" where
  "epoch_main T G contents_Y styles_Y_gram epoch s =
     (case s of (X, trainer, logs) \<Rightarrow>
       ebind (total_loss_main G contents_Y styles_Y_gram X) (\<lambda>loss.
       ebind (step T (total_loss_main G contents_Y styles_Y_gram) X (ostate trainer)) (\<lambda>(X', st).
       ebind (scheduler_step T st) (\<lambda>st'.
         Inr (X', trainer\<lparr>ostate := st'\<rparr>, logs @ [Scalar epoch loss])))))"

text \<open>
  The \<open>for\<close> loop over the epochs: an iteration that raises ends the run. The lines
  printed to the terminal are left out; what goes to the summary writer is the log.
\<close>

fun train_loop ::
  "(nat \<Rightarrow> 's \<Rightarrow> error + 's) \<Rightarrow> nat list \<Rightarrow> 's \<Rightarrow> error + 's" where
  "train_loop body [] s = Inr s"
| "train_loop body (epoch # epochs) s = ebind (body epoch s) (train_loop body epochs)"

definition train_Gatys ::
  "'o torch \<Rightarrow> globals \<Rightarrow> tensor \<Rightarrow> tensor list \<Rightarrow> tensor list \<Rightarrow> real \<Rightarrow> int \<Rightarrow> int
     \<Rightarrow> error + (tensor \<times> log_entry list)" where
  "train_Gatys T G X contents_Y styles_Y lr num_epochs lr_decay_epoch =
     ebind (get_inits_Gatys T X lr styles_Y) (\<lambda>(X, styles_Y_gram, trainer).
     ebind (mk_scheduler T (ostate trainer) lr_decay_epoch) (\<lambda>st.
     ebind (train_loop (epoch_Gatys T G contents_Y styles_Y_gram) [0..<nat num_epochs]
              (X, trainer\<lparr>ostate := st\<rparr>, [])) (\<lambda>(X, _, logs).
       Inr (X, logs))))"

definition train_main ::
  "'o torch \<Rightarrow> globals \<Rightarrow> tensor \<Rightarrow> tensor \<Rightarrow> tensor list \<Rightarrow> tensor list \<Rightarrow> real \<Rightarrow> int \<Rightarrow> int
     \<Rightarrow> error + (tensor \<times> log_entry list)" where
  "train_main T G content_pre X contents_Y styles_Y lr num_epochs lr_decay_epoch =
     ebind (get_inits_main T content_pre X lr styles_Y) (\<lambda>(X, styles_Y_gram, trainer).
     ebind (mk_scheduler T (ostate trainer) lr_decay_epoch) (\<lambda>st.
     ebind (train_loop (epoch_main T G contents_Y styles_Y_gram) [0..<nat num_epochs]
              (X, trainer\<lparr>ostate := st\<rparr>, [])) (\<lambda>(X, _, logs).
       Inr (X, logs))))"

text \<open>
  The body of the module \<open>Gatys.py\<close>: the network is built, the references are extracted
  from the preprocessed content and style images, and the image is trained for \<open>200\<close>
  epochs with learning rate \<open>0.5\<close>, decayed every \<open>50\<close> epochs. Reading the images,
  preprocessing them and saving the result are input and output around this: the
  preprocessed images are the arguments, and the value of the run is the trained image with
  what was logged.
\<close>

definition run_Gatys ::
  "'o torch \<Rightarrow> layer list \<Rightarrow> int list \<Rightarrow> int list \<Rightarrow> tensor \<Rightarrow> tensor
     \<Rightarrow> error + (tensor \<times> log_entry list)" where
  "run_Gatys T features Content_Layers Style_Layers content_X style_X =
     ebind (Incomplete_CNN features Content_Layers Style_Layers) (\<lambda>layers.
       let G = \<lparr>net = layers, content_layers = Content_Layers, style_layers = Style_Layers\<rparr> in
       ebind (extract_features layers content_X Content_Layers Style_Layers) (\<lambda>(Content_Y, _).
       ebind (extract_features layers style_X Content_Layers Style_Layers) (\<lambda>(_, Style_Y).
         train_Gatys T G content_X Content_Y Style_Y (1 / 2) 200 50)))"

text \<open>The epochs at which a loss was written to the summary writer, in order.\<close>

fun log_steps :: "log_entry list \<Rightarrow> nat list" where
  "log_steps [] = []"
| "log_steps (Scalar epoch loss # es) = epoch # log_steps es"
| "log_steps (Image k img # es) = log_steps es"

section \<open>Neighbour differences of an image\<close>

text \<open>
  The absolute differences between each pixel and the pixel below it (\<open>vdiffs\<close>) and
  between each pixel and the pixel to its right (\<open>hdiffs\<close>), read off the image by its
  multi-indices, and the mean of a list of floats. The properties of \<open>tv_loss\<close> are stated
  with them.
\<close>

definition mean_fl :: "fl list \<Rightarrow> fl" where
  "mean_fl xs = fdivn (sum_list xs) (length xs)"

definition vdiffs :: "tensor \<Rightarrow> fl list" where
  "vdiffs Y =
     map (\<lambda>idx. \<bar>elem Y (idx[2 := idx ! 2 + 1]) - elem Y idx\<bar>)
       (indices ((shape Y)[2 := shape Y ! 2 - 1]))"

definition hdiffs :: "tensor \<Rightarrow> fl list" where
  "hdiffs Y =
     map (\<lambda>idx. \<bar>elem Y (idx[3 := idx ! 3 + 1]) - elem Y idx\<bar>)
       (indices ((shape Y)[3 := shape Y ! 3 - 1]))"

section \<open>Example inputs\<close>

text \<open>An activation tensor with two channels of two by two positions.\<close>

definition ex_act :: tensor where
  "ex_act = \<lparr>shape = [1, 2, 2, 2], data = map Fin [1, 2, 3, 4, 5, 6, 7, 9]\<rparr>"


text \<open>
  Images of one channel: a single pixel, a row of three equal pixels, and a row of two
  different pixels.
\<close>

definition ex_pixel :: tensor where
  "ex_pixel = \<lparr>shape = [1, 1, 1, 1], data = [Fin 3]\<rparr>"

definition ex_const_row :: tensor where
  "ex_const_row = \<lparr>shape = [1, 1, 1, 3], data = [Fin 5, Fin 5, Fin 5]\<rparr>"

definition ex_row :: tensor where
  "ex_row = \<lparr>shape = [1, 1, 1, 2], data = [Fin 0, Fin 1]\<rparr>"

text \<open>A constant image of two by two pixels.\<close>

definition ex_flat :: tensor where
  "ex_flat = \<lparr>shape = [1, 1, 2, 2], data = [Fin 4, Fin 4, Fin 4, Fin 4]\<rparr>"

text \<open>
  A style activation of one channel and one position, and a reference Gram matrix: the
  style loss of the one against the other is \<open>4\<close>.
\<close>

definition ex_unit :: tensor where
  "ex_unit = \<lparr>shape = [1, 1, 1, 1], data = [Fin 2]\<rparr>"

definition ex_gram0 :: tensor where
  "ex_gram0 = \<lparr>shape = [1, 1], data = [Fin 0]\<rparr>"

text \<open>The Gram matrix of the image \<open>ex_pixel\<close>.\<close>

definition ex_gram9 :: tensor where
  "ex_gram9 = \<lparr>shape = [1, 1], data = [Fin 9]\<rparr>"

text \<open>
  A library whose optimizer evaluates the loss once and leaves the image where it is, and a
  network of one layer that returns its input, read at depth \<open>0\<close> for content and style.
\<close>

definition ex_torch :: "unit torch" where
  "ex_torch =
     \<lparr>mk_trainer = (\<lambda>k lr. Inr ()),
      mk_scheduler = (\<lambda>st n. Inr st),
      step = (\<lambda>closure X st. ebind (closure X) (\<lambda>l. Inr (X, st))),
      scheduler_step = (\<lambda>st. Inr st),
      rand = (\<lambda>s. replicate (prod_list s) (Fin 0)),
      snapshot = (\<lambda>X. Inr X)\<rparr>"

definition ex_globals :: globals where
  "ex_globals = \<lparr>net = [Inr], content_layers = [0], style_layers = [0]\<rparr>"

section \<open>Multi-indices and row-major storage\<close>

lemma length_indices: "length (indices s) = prod_list s"
proof (induction s)
  case Nil
  show ?case by simp
next
  case (Cons d ds)
  have "length (indices (d # ds)) = sum_list (map (\<lambda>i. prod_list ds) [0..<d])"
    by (simp add: length_concat comp_def Cons.IH)
  also have "\<dots> = d * prod_list ds"
    by (simp add: sum_list_triv)
  finally show ?case by simp
qed

lemma concat_blocks: "concat (map (\<lambda>i. map (\<lambda>j. i * p + j) [0..<p]) [0..<d]) = [0..<d * p]"
proof (induction d)
  case 0
  show ?case by simp
next
  case (Suc d)
  have blk: "map (\<lambda>j. d * p + j) [0..<p] = [d * p..<d * p + p]"
    using map_add_upt [of "d * p" p] by (simp add: add.commute)
  have "[0..<d * p + p] = [0..<d * p] @ [d * p..<d * p + p]"
    by (rule upt_add_eq_append) simp
  then show ?case
    using Suc.IH blk by (simp add: add.commute)
qed

lemma ravel_indices: "map (ravel s) (indices s) = [0..<prod_list s]"
proof (induction s)
  case Nil
  show ?case by simp
next
  case (Cons d ds)
  have "map (ravel (d # ds)) (indices (d # ds)) =
          concat (map (\<lambda>i. map (\<lambda>is. i * prod_list ds + ravel ds is) (indices ds)) [0..<d])"
    by (simp add: map_concat comp_def)
  also have "\<dots> = concat (map (\<lambda>i. map (\<lambda>j. i * prod_list ds + j) (map (ravel ds) (indices ds))) [0..<d])"
    by (simp add: comp_def)
  also have "\<dots> = [0..<d * prod_list ds]"
    by (simp only: Cons.IH concat_blocks)
  finally show ?case by simp
qed

lemma in_indices_iff:
  "idx \<in> set (indices s) \<longleftrightarrow> length idx = length s \<and> (\<forall>k<length s. idx ! k < s ! k)"
proof (induction s arbitrary: idx)
  case Nil
  show ?case by auto
next
  case (Cons d ds)
  show ?case
  proof (cases idx)
    case Nil
    then show ?thesis by auto
  next
    case (Cons i js)
    have "idx \<in> set (indices (d # ds)) \<longleftrightarrow> i < d \<and> js \<in> set (indices ds)"
      using Cons by auto
    also have "\<dots> \<longleftrightarrow> i < d \<and> length js = length ds \<and> (\<forall>k<length ds. js ! k < ds ! k)"
      by (simp add: Cons.IH)
    also have "\<dots> \<longleftrightarrow> length idx = length (d # ds) \<and> (\<forall>k<length (d # ds). idx ! k < (d # ds) ! k)"
      using Cons by (auto simp: nth_Cons split: nat.splits)
    finally show ?thesis .
  qed
qed

lemma ravel_less: "idx \<in> set (indices s) \<Longrightarrow> ravel s idx < prod_list s"
proof -
  assume "idx \<in> set (indices s)"
  then have "ravel s idx \<in> set (map (ravel s) (indices s))" by simp
  then show ?thesis by (simp only: ravel_indices) simp
qed

lemma indices_nth_ravel: "idx \<in> set (indices s) \<Longrightarrow> indices s ! ravel s idx = idx"
proof -
  assume a: "idx \<in> set (indices s)"
  then obtain p where p: "p < length (indices s)" "indices s ! p = idx"
    by (auto simp: in_set_conv_nth)
  have "map (ravel s) (indices s) ! p = [0..<prod_list s] ! p"
    by (simp only: ravel_indices)
  then have "ravel s idx = p"
    using p by (simp add: length_indices)
  then show ?thesis using p by simp
qed

lemma elem_tabulate: "idx \<in> set (indices s) \<Longrightarrow> elem (tabulate s f) idx = f idx"
  using ravel_less [of idx s] indices_nth_ravel [of idx s]
  by (simp add: elem_def tabulate_def length_indices)

lemma tabulate_cong:
  "(\<And>idx. idx \<in> set (indices s) \<Longrightarrow> f idx = g idx) \<Longrightarrow> tabulate s f = tabulate s g"
  by (simp add: tabulate_def)

lemma tabulate_elem: "wf_tensor t \<Longrightarrow> tabulate (shape t) (elem t) = t"
proof -
  assume wf: "wf_tensor t"
  have "map (elem t) (indices (shape t)) = map ((!) (data t)) (map (ravel (shape t)) (indices (shape t)))"
    by (simp add: elem_def comp_def)
  also have "\<dots> = map ((!) (data t)) [0..<length (data t)]"
    using wf by (simp only: ravel_indices) (simp add: wf_tensor_def numel_def)
  also have "\<dots> = data t"
    by (rule map_nth)
  finally show ?thesis by (simp add: tabulate_def)
qed

section \<open>The Gram matrix\<close>


lemma shape_tabulate: "shape (tabulate s f) = s"
  by (simp add: tabulate_def)

lemma in_indices_Nil: "idx \<in> set (indices []) \<longleftrightarrow> idx = []"
  by simp

lemma in_indices_Cons:
  "idx \<in> set (indices (d # ds)) \<longleftrightarrow> (\<exists>i js. i < d \<and> js \<in> set (indices ds) \<and> idx = i # js)"
  by auto


lemma in_indices4:
  "idx \<in> set (indices [b, c, h, w]) \<longleftrightarrow> (\<exists>i<b. \<exists>j<c. \<exists>k<h. \<exists>l<w. idx = [i, j, k, l])"
  by (simp only: in_indices_Cons in_indices_Nil) blast





section \<open>Subtraction of tensors of one shape\<close>

lemma bdims_same: "bdims s s = Some s"
  by (induction s) simp_all

lemma broadcast_shapes_same: "broadcast_shapes s s = Some s"
  by (simp add: broadcast_shapes_def pad_shape_def bdims_same)

lemma belem_same:
  assumes "idx \<in> set (indices (shape t))"
  shows "belem t idx = elem t idx"
proof -
  from assms have l: "length idx = length (shape t)"
    and b: "\<forall>k<length (shape t). idx ! k < shape t ! k"
    by (simp_all add: in_indices_iff)
  have "map2 (\<lambda>d i. if d = 1 then 0 else i) (shape t) idx = idx"
  proof (rule nth_equalityI)
    show "length (map2 (\<lambda>d i. if d = 1 then 0 else i) (shape t) idx) = length idx"
      using l by simp
  next
    fix k assume "k < length (map2 (\<lambda>d i. if d = 1 then 0 else i) (shape t) idx)"
    then have k: "k < length (shape t)" using l by simp
    with b have "idx ! k < shape t ! k" by simp
    then show "map2 (\<lambda>d i. if d = 1 then 0 else i) (shape t) idx ! k = idx ! k"
      using k l by auto
  qed
  then show ?thesis
    using l by (simp add: belem_def)
qed

lemma tsub_same_shape:
  assumes "shape a = shape b"
  shows "tsub a b = Inr (tabulate (shape a) (\<lambda>idx. elem a idx - elem b idx))"
proof -
  have "tabulate (shape a) (\<lambda>idx. belem a idx - belem b idx) =
        tabulate (shape a) (\<lambda>idx. elem a idx - elem b idx)"
    by (rule tabulate_cong) (simp add: belem_same assms [symmetric] belem_same [of _ b, unfolded assms [symmetric]])
  then show ?thesis
    using assms by (simp add: tsub_def broadcast_shapes_same)
qed

section \<open>The total-variation loss\<close>

lemma tmean_tabs_tabulate:
  "tmean (tabs (tabulate s f)) = mean_fl (map (\<lambda>idx. \<bar>f idx\<bar>) (indices s))"
  by (simp add: tmean_def tabs_def tmap_def tabulate_def numel_def mean_fl_def length_indices comp_def)

lemma slice_diff:
  "tsub (slice_from1 k Y) (slice_butlast k Y) =
     Inr (tabulate ((shape Y)[k := shape Y ! k - 1])
            (\<lambda>idx. elem Y (idx[k := idx ! k + 1]) - elem Y idx))"
proof -
  let ?s = "(shape Y)[k := shape Y ! k - 1]"
  have sh: "shape (slice_from1 k Y) = shape (slice_butlast k Y)"
    by (simp add: slice_from1_def slice_butlast_def shape_tabulate)
  have "tabulate ?s (\<lambda>idx. elem (slice_from1 k Y) idx - elem (slice_butlast k Y) idx) =
        tabulate ?s (\<lambda>idx. elem Y (idx[k := idx ! k + 1]) - elem Y idx)"
    by (rule tabulate_cong) (simp add: slice_from1_def slice_butlast_def elem_tabulate)
  then show ?thesis
    using tsub_same_shape [OF sh] by (simp add: slice_from1_def shape_tabulate)
qed

lemma tv_loss_formula:
  assumes "4 \<le> length (shape Y)"
  shows "tv_loss Y = Inr (Fin (1 / 2) * (mean_fl (vdiffs Y) + mean_fl (hdiffs Y)))"
  using assms
  by (simp add: tv_loss_def ebind_def slice_diff tmean_tabs_tabulate vdiffs_def hdiffs_def)

lemma mean_fl_Nil: "mean_fl [] = NaN"
  by (simp add: mean_fl_def zero_fl_def)

lemma sum_list_Fin: "sum_list (map Fin xs) = Fin (sum_list xs)"
  by (induction xs) (simp_all add: zero_fl_def)

lemma mean_fl_Fin:
  "xs \<noteq> [] \<Longrightarrow> mean_fl (map Fin xs) = Fin (sum_list xs / real (length xs))"
  by (simp add: mean_fl_def sum_list_Fin)

lemma length_vdiffs:
  "shape Y = [B, C, H, W] \<Longrightarrow> length (vdiffs Y) = B * C * (H - 1) * W"
  by (simp add: vdiffs_def length_indices del: indices.simps)

lemma length_hdiffs:
  "shape Y = [B, C, H, W] \<Longrightarrow> length (hdiffs Y) = B * C * H * (W - 1)"
  by (simp add: hdiffs_def length_indices del: indices.simps)

text \<open>
  C9. For an image tensor of height \<open>1\<close> or of width \<open>1\<close> the tensor of the vertical
  or of the horizontal differences has no element, its mean is not a number, and so is the
  result of \<open>tv_loss\<close>; \<open>tv_loss\<close> returns a finite value only when both the
  height and the width are at least \<open>2\<close>.
\<close>

theorem tv_loss_degenerate:
  assumes s: "shape Y = [B, C, H, W]"
  shows "(H = 1 \<longrightarrow> vdiffs Y = [] \<and> tv_loss Y = Inr NaN) \<and>
         (W = 1 \<longrightarrow> hdiffs Y = [] \<and> tv_loss Y = Inr NaN) \<and>
         (\<forall>v. tv_loss Y = Inr (Fin v) \<longrightarrow> 2 \<le> H \<and> 2 \<le> W)"
proof -
  have tv: "tv_loss Y = Inr (Fin (1 / 2) * (mean_fl (vdiffs Y) + mean_fl (hdiffs Y)))"
    using s by (simp add: tv_loss_formula)
  have v: "vdiffs Y = [] \<and> tv_loss Y = Inr NaN" if "H \<le> 1"
  proof -
    have "length (vdiffs Y) = 0"
      using that s by (simp add: length_vdiffs)
    then have "vdiffs Y = []" by simp
    then show ?thesis by (simp add: tv mean_fl_Nil)
  qed
  have h: "hdiffs Y = [] \<and> tv_loss Y = Inr NaN" if "W \<le> 1"
  proof -
    have "length (hdiffs Y) = 0"
      using that s by (simp add: length_hdiffs)
    then have e: "hdiffs Y = []" by simp
    show ?thesis
      by (cases "mean_fl (vdiffs Y)") (simp_all add: tv e mean_fl_Nil)
  qed
  have "2 \<le> H \<and> 2 \<le> W" if "tv_loss Y = Inr (Fin v)" for v
  proof (rule ccontr)
    assume "\<not> (2 \<le> H \<and> 2 \<le> W)"
    then have "H \<le> 1 \<or> W \<le> 1" by arith
    then have "tv_loss Y = Inr NaN" using v h by blast
    with that show False by simp
  qed
  with v h show ?thesis by simp
qed

lemma tv_loss_ex_act: "tv_loss ex_act = Inr (Fin (7 / 4))"
  by (simp add: tv_loss_formula ex_act_def vdiffs_def hdiffs_def mean_fl_def elem_def
      upt_conv_Cons zero_fl_def)

theorem tv_loss_degenerate_witness:
  "vdiffs ex_pixel = [] \<and> hdiffs ex_pixel = [] \<and> tv_loss ex_pixel = Inr NaN \<and>
   tv_loss ex_act = Inr (Fin (7 / 4)) \<and> (2 :: nat) \<le> 2"
proof -
  have p: "shape ex_pixel = [1, 1, 1, 1]"
    by (simp add: ex_pixel_def)
  have a: "shape ex_act = [1, 2, 2, 2]"
    by (simp add: ex_act_def)
  from tv_loss_degenerate [OF p] have "vdiffs ex_pixel = [] \<and> hdiffs ex_pixel = [] \<and> tv_loss ex_pixel = Inr NaN"
    by simp
  moreover from tv_loss_degenerate [OF a] tv_loss_ex_act have "(2 :: nat) \<le> 2"
    by blast
  ultimately show ?thesis
    using tv_loss_ex_act by simp
qed

section \<open>The total-variation loss of a finite image\<close>

lemma elem_finite:
  assumes wf: "wf_tensor Y" and fin: "\<forall>x\<in>set (data Y). is_finite x"
    and idx: "idx \<in> set (indices (shape Y))"
  shows "elem Y idx = Fin (fl_val (elem Y idx))"
proof -
  have "ravel (shape Y) idx < length (data Y)"
    using ravel_less [OF idx] wf by (simp add: wf_tensor_def numel_def)
  then have "elem Y idx \<in> set (data Y)"
    by (simp add: elem_def)
  with fin have "is_finite (elem Y idx)" by blast
  then show ?thesis
    by (cases "elem Y idx") (simp_all add: is_finite_def fl_val_def)
qed

lemma pixel_finite:
  assumes s: "shape Y = [B, C, H, W]" and wf: "wf_tensor Y"
    and fin: "\<forall>x\<in>set (data Y). is_finite x"
    and r: "b < B" "c < C" "h < H" "w < W"
  shows "elem Y [b, c, h, w] = Fin (fl_val (elem Y [b, c, h, w]))"
proof -
  have "[b, c, h, w] \<in> set (indices (shape Y))"
    unfolding s in_indices4 using r by blast
  then show ?thesis by (rule elem_finite [OF wf fin])
qed

text \<open>The differences of a finite image are finite and not negative.\<close>

lemma vdiffs_real:
  assumes s: "shape Y = [B, C, H, W]" and wf: "wf_tensor Y"
    and fin: "\<forall>x\<in>set (data Y). is_finite x"
  shows "vdiffs Y = map Fin (map
           (\<lambda>idx. \<bar>fl_val (elem Y (idx[2 := idx ! 2 + 1])) - fl_val (elem Y idx)\<bar>)
           (indices [B, C, H - 1, W]))"
proof -
  have "\<bar>elem Y (idx[2 := idx ! 2 + 1]) - elem Y idx\<bar> =
        Fin \<bar>fl_val (elem Y (idx[2 := idx ! 2 + 1])) - fl_val (elem Y idx)\<bar>"
    if "idx \<in> set (indices [B, C, H - 1, W])" for idx
  proof -
    from that obtain b c h w where r: "b < B" "c < C" "h < H - 1" "w < W" "idx = [b, c, h, w]"
      unfolding in_indices4 by blast
    have 1: "elem Y [b, c, h, w] = Fin (fl_val (elem Y [b, c, h, w]))"
      using r by (intro pixel_finite [OF s wf fin]) auto
    have 2: "elem Y [b, c, h + 1, w] = Fin (fl_val (elem Y [b, c, h + 1, w]))"
      using r by (intro pixel_finite [OF s wf fin]) auto
    have "\<bar>elem Y [b, c, h + 1, w] - elem Y [b, c, h, w]\<bar> =
          \<bar>Fin (fl_val (elem Y [b, c, h + 1, w])) - Fin (fl_val (elem Y [b, c, h, w]))\<bar>"
      using 1 2 by simp
    then show ?thesis
      using r by simp
  qed
  then show ?thesis
    using s by (simp add: vdiffs_def del: indices.simps)
qed

lemma hdiffs_real:
  assumes s: "shape Y = [B, C, H, W]" and wf: "wf_tensor Y"
    and fin: "\<forall>x\<in>set (data Y). is_finite x"
  shows "hdiffs Y = map Fin (map
           (\<lambda>idx. \<bar>fl_val (elem Y (idx[3 := idx ! 3 + 1])) - fl_val (elem Y idx)\<bar>)
           (indices [B, C, H, W - 1]))"
proof -
  have "\<bar>elem Y (idx[3 := idx ! 3 + 1]) - elem Y idx\<bar> =
        Fin \<bar>fl_val (elem Y (idx[3 := idx ! 3 + 1])) - fl_val (elem Y idx)\<bar>"
    if "idx \<in> set (indices [B, C, H, W - 1])" for idx
  proof -
    from that obtain b c h w where r: "b < B" "c < C" "h < H" "w < W - 1" "idx = [b, c, h, w]"
      unfolding in_indices4 by blast
    have 1: "elem Y [b, c, h, w] = Fin (fl_val (elem Y [b, c, h, w]))"
      using r by (intro pixel_finite [OF s wf fin]) auto
    have 2: "elem Y [b, c, h, w + 1] = Fin (fl_val (elem Y [b, c, h, w + 1]))"
      using r by (intro pixel_finite [OF s wf fin]) auto
    have "\<bar>elem Y [b, c, h, w + 1] - elem Y [b, c, h, w]\<bar> =
          \<bar>Fin (fl_val (elem Y [b, c, h, w + 1])) - Fin (fl_val (elem Y [b, c, h, w]))\<bar>"
      using 1 2 by simp
    then show ?thesis
      using r by simp
  qed
  then show ?thesis
    using s by (simp add: hdiffs_def del: indices.simps)
qed

lemma mean_real_nonneg:
  fixes xs :: "real list"
  assumes "\<forall>x\<in>set xs. 0 \<le> x"
  shows "0 \<le> sum_list xs / real (length xs)"
  using assms by (simp add: sum_list_nonneg)

lemma mean_real_zero:
  fixes xs :: "real list"
  assumes "\<forall>x\<in>set xs. x = 0"
  shows "sum_list xs / real (length xs) = 0"
proof -
  have "sum_list xs = 0"
    using assms by (induction xs) simp_all
  then show ?thesis by simp
qed

text \<open>
  C5, as amended. For an image tensor of shape \<open>(B, C, H, W)\<close> with finite pixels, at
  least one plane and a height and a width of at least \<open>2\<close>: \<open>tv_loss\<close> is half of the
  sum of the mean absolute difference of vertical neighbours and the mean absolute
  difference of horizontal neighbours; it is exactly \<open>0\<close> if every plane is constant; its
  result is a number, and is not negative; and if some pixel differs from its neighbour
  below or to its right, one of the absolute differences of neighbours is a number other
  than \<open>0\<close>. Whether the mean of such differences is then other than \<open>0\<close> depends on
  the rounding of small floats and is not stated.
\<close>

theorem tv_loss_constant_zero:
  assumes s: "shape Y = [B, C, H, W]" and wf: "wf_tensor Y"
    and fin: "\<forall>x\<in>set (data Y). is_finite x"
    and pos: "0 < B" "0 < C" "2 \<le> H" "2 \<le> W"
  shows "tv_loss Y = Inr (Fin (1 / 2) * (mean_fl (vdiffs Y) + mean_fl (hdiffs Y))) \<and>
    ((\<forall>b<B. \<forall>c<C. \<forall>h<H. \<forall>w<W. elem Y [b, c, h, w] = elem Y [b, c, 0, 0])
        \<longrightarrow> tv_loss Y = Inr (Fin 0)) \<and>
    (\<exists>r. tv_loss Y = Inr r \<and> r \<noteq> NaN) \<and>
    (\<forall>v. tv_loss Y = Inr (Fin v) \<longrightarrow> 0 \<le> v) \<and>
    ((\<exists>b<B. \<exists>c<C. \<exists>h w.
         (h + 1 < H \<and> w < W \<and> elem Y [b, c, h + 1, w] \<noteq> elem Y [b, c, h, w]) \<or>
         (h < H \<and> w + 1 < W \<and> elem Y [b, c, h, w + 1] \<noteq> elem Y [b, c, h, w]))
        \<longrightarrow> (\<exists>d\<in>set (vdiffs Y @ hdiffs Y). d \<noteq> NaN \<and> d \<noteq> Fin 0))"
proof -
  define dv where "dv idx = \<bar>fl_val (elem Y (idx[2 := idx ! 2 + 1])) - fl_val (elem Y idx)\<bar>"
    for idx :: "nat list"
  define dh where "dh idx = \<bar>fl_val (elem Y (idx[3 := idx ! 3 + 1])) - fl_val (elem Y idx)\<bar>"
    for idx :: "nat list"
  define rv where "rv = map dv (indices [B, C, H - 1, W])"
  define rh where "rh = map dh (indices [B, C, H, W - 1])"
  define mv where "mv = sum_list rv / real (length rv)"
  define mh where "mh = sum_list rh / real (length rh)"
  have v: "vdiffs Y = map Fin rv"
    using vdiffs_real [OF s wf fin] by (simp add: rv_def dv_def [abs_def])
  have h: "hdiffs Y = map Fin rh"
    using hdiffs_real [OF s wf fin] by (simp add: rh_def dh_def [abs_def])
  have lv: "length rv = B * C * (H - 1) * W"
    by (simp add: rv_def length_indices del: indices.simps)
  have lh: "length rh = B * C * H * (W - 1)"
    by (simp add: rh_def length_indices del: indices.simps)
  have "0 < length rv" "0 < length rh"
    using pos by (simp_all add: lv lh)
  then have ne: "rv \<noteq> []" "rh \<noteq> []" by auto
  have mfv: "mean_fl (vdiffs Y) = Fin mv"
    using ne by (simp add: v mean_fl_Fin mv_def)
  have mfh: "mean_fl (hdiffs Y) = Fin mh"
    using ne by (simp add: h mean_fl_Fin mh_def)
  have nnv: "\<forall>x\<in>set rv. 0 \<le> x"
    by (auto simp: rv_def dv_def simp del: indices.simps)
  have nnh: "\<forall>x\<in>set rh. 0 \<le> x"
    by (auto simp: rh_def dh_def simp del: indices.simps)
  have formula: "tv_loss Y = Inr (Fin (1 / 2) * (mean_fl (vdiffs Y) + mean_fl (hdiffs Y)))"
    using s by (simp add: tv_loss_formula)
  have tv: "tv_loss Y = Inr (Fin ((mv + mh) / 2))"
    by (simp add: formula mfv mfh)
  have mv0: "0 \<le> mv"
    unfolding mv_def using nnv by (rule mean_real_nonneg)
  have mh0: "0 \<le> mh"
    unfolding mh_def using nnh by (rule mean_real_nonneg)
  have number: "\<exists>r. tv_loss Y = Inr r \<and> r \<noteq> NaN"
    by (simp add: tv)
  have sign: "0 \<le> x" if "tv_loss Y = Inr (Fin x)" for x
    using that mv0 mh0 by (simp add: tv)
  have const: "tv_loss Y = Inr (Fin 0)"
    if c: "\<forall>b<B. \<forall>c<C. \<forall>h<H. \<forall>w<W. elem Y [b, c, h, w] = elem Y [b, c, 0, 0]"
  proof -
    have "dv idx = 0" if "idx \<in> set (indices [B, C, H - 1, W])" for idx
    proof -
      from that obtain b c h w where r: "b < B" "c < C" "h < H - 1" "w < W" "idx = [b, c, h, w]"
        unfolding in_indices4 by blast
      have hh: "h + 1 < H" "h < H"
        using r by arith+
      have "elem Y [b, c, h + 1, w] = elem Y [b, c, 0, 0]"
        using c r(1,2,4) hh(1) by blast
      moreover have "elem Y [b, c, h, w] = elem Y [b, c, 0, 0]"
        using c r(1,2,4) hh(2) by blast
      ultimately show ?thesis
        using r by (simp add: dv_def)
    qed
    then have "\<forall>x\<in>set rv. x = 0"
      by (auto simp: rv_def simp del: indices.simps)
    then have "mv = 0"
      unfolding mv_def by (rule mean_real_zero)
    have "dh idx = 0" if "idx \<in> set (indices [B, C, H, W - 1])" for idx
    proof -
      from that obtain b c h w where r: "b < B" "c < C" "h < H" "w < W - 1" "idx = [b, c, h, w]"
        unfolding in_indices4 by blast
      have ww: "w + 1 < W" "w < W"
        using r by arith+
      have "elem Y [b, c, h, w + 1] = elem Y [b, c, 0, 0]"
        using c r(1,2,3) ww(1) by blast
      moreover have "elem Y [b, c, h, w] = elem Y [b, c, 0, 0]"
        using c r(1,2,3) ww(2) by blast
      ultimately show ?thesis
        using r by (simp add: dh_def)
    qed
    then have "\<forall>x\<in>set rh. x = 0"
      by (auto simp: rh_def simp del: indices.simps)
    then have "mh = 0"
      unfolding mh_def by (rule mean_real_zero)
    with \<open>mv = 0\<close> show ?thesis by (simp add: tv)
  qed
  have differ: "\<exists>d\<in>set (vdiffs Y @ hdiffs Y). d \<noteq> NaN \<and> d \<noteq> Fin 0"
    if d: "\<exists>b<B. \<exists>c<C. \<exists>h w.
         (h + 1 < H \<and> w < W \<and> elem Y [b, c, h + 1, w] \<noteq> elem Y [b, c, h, w]) \<or>
         (h < H \<and> w + 1 < W \<and> elem Y [b, c, h, w + 1] \<noteq> elem Y [b, c, h, w])"
  proof -
    from d obtain b c h w where bc: "b < B" "c < C" and
      cases: "(h + 1 < H \<and> w < W \<and> elem Y [b, c, h + 1, w] \<noteq> elem Y [b, c, h, w]) \<or>
              (h < H \<and> w + 1 < W \<and> elem Y [b, c, h, w + 1] \<noteq> elem Y [b, c, h, w])"
      by blast
    from cases have "\<exists>x. 0 < x \<and> Fin x \<in> set (vdiffs Y @ hdiffs Y)"
    proof
      assume a: "h + 1 < H \<and> w < W \<and> elem Y [b, c, h + 1, w] \<noteq> elem Y [b, c, h, w]"
      have 1: "elem Y [b, c, h, w] = Fin (fl_val (elem Y [b, c, h, w]))"
        using a bc by (intro pixel_finite [OF s wf fin]) auto
      have 2: "elem Y [b, c, h + 1, w] = Fin (fl_val (elem Y [b, c, h + 1, w]))"
        using a bc by (intro pixel_finite [OF s wf fin]) auto
      have "fl_val (elem Y [b, c, h + 1, w]) \<noteq> fl_val (elem Y [b, c, h, w])"
        using a 1 2 by metis
      then have "0 < dv [b, c, h, w]"
        by (simp add: dv_def)
      moreover have "[b, c, h, w] \<in> set (indices [B, C, H - 1, W])"
        unfolding in_indices4 using a bc by auto
      then have "dv [b, c, h, w] \<in> set rv"
        unfolding rv_def set_map by (rule imageI)
      then have "Fin (dv [b, c, h, w]) \<in> set (vdiffs Y @ hdiffs Y)"
        by (simp add: v)
      ultimately show ?thesis by blast
    next
      assume a: "h < H \<and> w + 1 < W \<and> elem Y [b, c, h, w + 1] \<noteq> elem Y [b, c, h, w]"
      have 1: "elem Y [b, c, h, w] = Fin (fl_val (elem Y [b, c, h, w]))"
        using a bc by (intro pixel_finite [OF s wf fin]) auto
      have 2: "elem Y [b, c, h, w + 1] = Fin (fl_val (elem Y [b, c, h, w + 1]))"
        using a bc by (intro pixel_finite [OF s wf fin]) auto
      have "fl_val (elem Y [b, c, h, w + 1]) \<noteq> fl_val (elem Y [b, c, h, w])"
        using a 1 2 by metis
      then have "0 < dh [b, c, h, w]"
        by (simp add: dh_def)
      moreover have "[b, c, h, w] \<in> set (indices [B, C, H, W - 1])"
        unfolding in_indices4 using a bc by auto
      then have "dh [b, c, h, w] \<in> set rh"
        unfolding rh_def set_map by (rule imageI)
      then have "Fin (dh [b, c, h, w]) \<in> set (vdiffs Y @ hdiffs Y)"
        by (simp add: h)
      ultimately show ?thesis by blast
    qed
    then obtain x where x: "0 < x" "Fin x \<in> set (vdiffs Y @ hdiffs Y)"
      by blast
    from x(1) have "Fin x \<noteq> NaN \<and> Fin x \<noteq> Fin 0"
      by simp
    with x(2) show ?thesis by blast
  qed
  from formula const number sign differ show ?thesis by blast
qed

theorem tv_loss_constant_zero_witness:
  "tv_loss ex_flat = Inr (Fin 0) \<and> tv_loss ex_act = Inr (Fin (7 / 4)) \<and> (0 :: real) \<le> 7 / 4 \<and>
   (\<exists>d\<in>set (vdiffs ex_act @ hdiffs ex_act). d \<noteq> NaN \<and> d \<noteq> Fin 0)"
proof -
  have fs: "shape ex_flat = [1, 1, 2, 2]" and fwf: "wf_tensor ex_flat"
    and ffin: "\<forall>x\<in>set (data ex_flat). is_finite x"
    by (simp_all add: ex_flat_def wf_tensor_def numel_def is_finite_def)
  have fconst: "\<forall>b<1. \<forall>c<1. \<forall>h<2. \<forall>w<2.
      elem ex_flat [b, c, h, w] = elem ex_flat [b, c, 0, 0]"
    by (simp add: ex_flat_def elem_def less_2_cases_iff)
  have as: "shape ex_act = [1, 2, 2, 2]" and awf: "wf_tensor ex_act"
    and afin: "\<forall>x\<in>set (data ex_act). is_finite x"
    by (simp_all add: ex_act_def wf_tensor_def numel_def is_finite_def)
  have "0 + 1 < (2::nat) \<and> (0::nat) < 2 \<and> elem ex_act [0, 0, 0 + 1, 0] \<noteq> elem ex_act [0, 0, 0, 0]"
    by (simp add: ex_act_def elem_def)
  then have adiff: "\<exists>b<1. \<exists>c<2. \<exists>h w.
      (h + 1 < 2 \<and> w < 2 \<and> elem ex_act [b, c, h + 1, w] \<noteq> elem ex_act [b, c, h, w]) \<or>
      (h < 2 \<and> w + 1 < 2 \<and> elem ex_act [b, c, h, w + 1] \<noteq> elem ex_act [b, c, h, w])"
    by (metis zero_less_one zero_less_numeral)
  have p: "(0::nat) < 1" "(0::nat) < 2" "(2::nat) \<le> 2"
    by simp_all
  have "tv_loss ex_flat = Inr (Fin 0)"
    using tv_loss_constant_zero [OF fs fwf ffin p(1) p(1) p(3) p(3)] fconst by blast
  moreover have "(0 :: real) \<le> 7 / 4"
    using tv_loss_constant_zero [OF as awf afin p(1) p(2) p(3) p(3)] tv_loss_ex_act by blast
  moreover have "\<exists>d\<in>set (vdiffs ex_act @ hdiffs ex_act). d \<noteq> NaN \<and> d \<noteq> Fin 0"
    using tv_loss_constant_zero [OF as awf afin p(1) p(2) p(3) p(3)] adiff by blast
  ultimately show ?thesis
    using tv_loss_ex_act by blast
qed

text \<open>
  Without the bound on the height: a row of three equal pixels and a row of two different
  pixels both have no vertical neighbours, and \<open>tv_loss\<close> is not a number on either.
\<close>

theorem tv_loss_constant_counterexample:
  "hdiffs ex_const_row = [Fin 0, Fin 0] \<and> vdiffs ex_const_row = [] \<and>
   tv_loss ex_const_row = Inr NaN \<and>
   hdiffs ex_row = [Fin 1] \<and> tv_loss ex_row = Inr NaN"
  by code_simp

section \<open>Sums and list comprehensions\<close>

lemma foldl_plus_fl: "foldl (+) a xs = a + sum_list xs" for a :: fl
  by (induction xs arbitrary: a) (simp_all add: add.assoc)

lemma py_sum_sum_list: "py_sum xs = sum_list xs"
  by (simp add: py_sum_def foldl_plus_fl)

lemma sum_list_weight: "sum_list (map (\<lambda>l. l * Fin w) xs) = Fin w * sum_list xs"
proof (induction xs)
  case Nil
  show ?case by (simp add: zero_fl_def)
next
  case (Cons x xs)
  then show ?case by (simp add: distrib_left mult.commute)
qed

lemma fdivn_weight_right: "fdivn (a * Fin w) n = fdivn a n * Fin w"
  by (cases a) simp_all

lemma traverse_weight:
  "traverse (\<lambda>x. ebind (f x) (\<lambda>l. Inr (g l))) xs = ebind (traverse f xs) (\<lambda>ls. Inr (map g ls))"
  by (induction xs) (simp_all add: ebind_def split: sum.splits)

lemma length_traverse: "traverse f xs = Inr ys \<Longrightarrow> length ys = length xs"
  by (induction xs arbitrary: ys) (auto simp: ebind_def split: sum.splits)


lemma contents_l_of_losses:
  "contents_l_of (Fin w) ch cy = ebind (content_losses ch cy) (\<lambda>ls. Inr (map (\<lambda>l. l * Fin w) ls))"
  unfolding contents_l_of_def content_losses_def case_prod_beta by (rule traverse_weight)

lemma styles_l_of_losses:
  "styles_l_of (Fin w) sh sg = ebind (style_losses sh sg) (\<lambda>ls. Inr (map (\<lambda>l. l * Fin w) ls))"
  unfolding styles_l_of_def style_losses_def case_prod_beta by (rule traverse_weight)

section \<open>The total loss\<close>

text \<open>
  C1, as amended. When the per-layer content losses, the per-layer style losses and the
  total-variation loss are computed without an error and there is at least one style layer,
  \<open>compute_loss\<close> of \<open>Gatys.py\<close> returns four values: the content losses, each times
  the content weight; the style losses, each times the style weight; the total-variation
  loss times its weight; and the total, which is the sum of the weighted content losses,
  plus the mean of the weighted style losses (their sum divided by the number of style
  layers), plus the weighted total-variation loss.
\<close>

theorem compute_loss_total:
  assumes c: "content_losses contents_Y_hat contents_Y = Inr cs"
    and st: "style_losses styles_Y_hat styles_Y_gram = Inr ss"
    and tv: "tv_loss X = Inr tv"
    and ne: "ss \<noteq> []"
  shows "compute_loss_Gatys X contents_Y_hat styles_Y_hat contents_Y styles_Y_gram =
           Inr (map (\<lambda>l. l * CONTENT_WEIGHT) cs, map (\<lambda>l. l * STYLE_WEIGHT) ss, tv * TV_WEIGHT,
                fdivn (py_sum (map (\<lambda>l. l * STYLE_WEIGHT) ss)) (length ss) +
                py_sum (map (\<lambda>l. l * CONTENT_WEIGHT) cs) +
                tv * TV_WEIGHT)"
proof -
  have cG: "contents_l_of CONTENT_WEIGHT contents_Y_hat contents_Y =
              Inr (map (\<lambda>l. l * CONTENT_WEIGHT) cs)"
    by (simp add: CONTENT_WEIGHT_def contents_l_of_losses c ebind_def)
  have sG: "styles_l_of STYLE_WEIGHT styles_Y_hat styles_Y_gram =
              Inr (map (\<lambda>l. l * STYLE_WEIGHT) ss)"
    by (simp add: STYLE_WEIGHT_def styles_l_of_losses st ebind_def)
  show ?thesis
    using ne
    by (simp add: compute_loss_Gatys_def cG sG tv ebind_def style_term_Gatys_def Let_def)
qed

text \<open>
  In the exact arithmetic of the model, where a product distributes over a sum, that total
  is the content weight times the sum of the content losses, plus the style weight times the
  mean of the style losses, plus the total-variation weight times the total-variation loss.
  With rounded floats the two differ by the rounding of the additions and products.
\<close>

lemma weighted_total_exact:
  "fdivn (py_sum (map (\<lambda>l. l * Fin sw) ss)) n + py_sum (map (\<lambda>l. l * Fin cw) cs) + tv * Fin tw =
   Fin cw * sum_list cs + Fin sw * fdivn (sum_list ss) n + Fin tw * tv"
  by (simp add: py_sum_sum_list sum_list_weight fdivn_weight_right ac_simps)


lemma content_losses_ex: "content_losses [ex_act] [ex_act] = Inr [Fin 0]"
  by code_simp

lemma style_losses_ex1: "style_losses [ex_unit] [ex_gram0] = Inr [Fin 4]"
  by code_simp

theorem compute_loss_total_witness:
  "compute_loss_Gatys ex_act [ex_act] [ex_unit] [ex_act] [ex_gram0] =
     Inr ([Fin 0], [Fin 20000], Fin 140, Fin 20140)"
proof -
  have ne: "[Fin 4] \<noteq> []"
    by simp
  from compute_loss_total [OF content_losses_ex style_losses_ex1 tv_loss_ex_act ne]
  show ?thesis
    by (simp add: CONTENT_WEIGHT_def STYLE_WEIGHT_def TV_WEIGHT_def py_sum_def zero_fl_def)
qed

text \<open>
  Without a style layer: \<open>compute_loss\<close> of \<open>Gatys.py\<close> divides the sum of no loss by
  the number \<open>0\<close> of losses, which raises, and returns no value.
\<close>

theorem compute_loss_total_counterexample:
  "compute_loss_Gatys ex_flat [] [] [] [] = Inl ZeroDivisionError"
  by code_simp

section \<open>The two style terms\<close>






section \<open>No style layer\<close>

lemma styles_l_of_empty: "sh = [] \<or> sg = [] \<Longrightarrow> styles_l_of w sh sg = Inr []"
  by (auto simp: styles_l_of_def)

lemma compute_loss_Gatys_no_style:
  assumes "sh = [] \<or> sg = []"
  shows "compute_loss_Gatys X ch sh cy sg =
           ebind (contents_l_of CONTENT_WEIGHT ch cy) (\<lambda>cl.
           ebind (tv_loss X) (\<lambda>tv. Inl ZeroDivisionError))"
  by (simp add: compute_loss_Gatys_def styles_l_of_empty [OF assms] ebind_def
      style_term_Gatys_def Let_def split: sum.splits)

text \<open>
  C10. With no style activation, \<open>compute_loss\<close> of \<open>Gatys.py\<close> returns nothing: it
  raises, and what it raises is the division by zero of \<open>sum(styles_l) / len(styles_l)\<close>
  when the content losses and the total-variation loss are computed without an error.
  On the same input \<open>compute_loss\<close> of \<open>main.py\<close> returns a total whose style term is
  \<open>0\<close>. \<open>compute_loss\<close> of \<open>Gatys.py\<close> returns only when the list of style
  activations is not empty.
\<close>

theorem compute_loss_empty_styles:
  "(\<exists>e. compute_loss_Gatys X ch [] cy sg = Inl e) \<and>
   (\<forall>cl tv. contents_l_of CONTENT_WEIGHT ch cy = Inr cl \<and> tv_loss X = Inr tv \<longrightarrow>
      compute_loss_Gatys X ch [] cy sg = Inl ZeroDivisionError) \<and>
   (\<forall>cl tv. contents_l_of content_weight ch cy = Inr cl \<and> tv_loss X = Inr tv \<longrightarrow>
      style_part_main [] sg = Inr (Fin 0) \<and>
      compute_loss_main X ch [] cy sg =
        Inr (cl, [], tv * tv_weight, Fin 0 + py_sum cl + py_sum [tv * tv_weight])) \<and>
   (\<forall>sh r. compute_loss_Gatys X ch sh cy sg = Inr r \<longrightarrow> sh \<noteq> [] \<and> sg \<noteq> [])"
proof -
  have G: "compute_loss_Gatys X ch sh cy sg =
           ebind (contents_l_of CONTENT_WEIGHT ch cy) (\<lambda>cl.
           ebind (tv_loss X) (\<lambda>tv. Inl ZeroDivisionError))" if "sh = [] \<or> sg = []" for sh
    using that by (rule compute_loss_Gatys_no_style)
  have 1: "\<exists>e. compute_loss_Gatys X ch sh cy sg = Inl e" if "sh = [] \<or> sg = []" for sh
    by (simp add: G [OF that] ebind_def split: sum.splits)
  have 2: "compute_loss_Gatys X ch [] cy sg = Inl ZeroDivisionError"
    if "contents_l_of CONTENT_WEIGHT ch cy = Inr cl \<and> tv_loss X = Inr tv" for cl tv
    using that by (simp add: G ebind_def)
  have 3: "style_part_main [] sg = Inr (Fin 0) \<and>
      compute_loss_main X ch [] cy sg =
        Inr (cl, [], tv * tv_weight, Fin 0 + py_sum cl + py_sum [tv * tv_weight])"
    if "contents_l_of content_weight ch cy = Inr cl \<and> tv_loss X = Inr tv" for cl tv
    using that
    by (simp add: compute_loss_main_def style_part_main_def styles_l_of_empty ebind_def
        style_term_main_def py_sum_def zero_fl_def Let_def)
  have 4: "sh \<noteq> [] \<and> sg \<noteq> []" if "compute_loss_Gatys X ch sh cy sg = Inr r" for sh r
  proof (rule ccontr)
    assume "\<not> (sh \<noteq> [] \<and> sg \<noteq> [])"
    then have "sh = [] \<or> sg = []" by blast
    from 1 [OF this] that show False by auto
  qed
  from 1 [of "[]"] 2 3 4 show ?thesis by blast
qed

lemma tv_loss_ex_flat: "tv_loss ex_flat = Inr (Fin 0)"
  by code_simp

theorem compute_loss_empty_styles_witness:
  "compute_loss_Gatys ex_flat [] [] [] [] = Inl ZeroDivisionError \<and>
   style_part_main [] [] = Inr (Fin 0) \<and>
   compute_loss_main ex_flat [] [] [] [] = Inr ([], [], Fin 0, Fin 0) \<and>
   compute_loss_Gatys ex_flat [] [ex_unit] [] [ex_gram0] = Inr ([], [Fin 20000], Fin 0, Fin 20000) \<and>
   [ex_unit] \<noteq> []"
proof -
  have cG: "contents_l_of CONTENT_WEIGHT [] [] = Inr [] \<and> tv_loss ex_flat = Inr (Fin 0)"
    by (simp add: contents_l_of_def tv_loss_ex_flat)
  have cM: "contents_l_of content_weight [] [] = Inr [] \<and> tv_loss ex_flat = Inr (Fin 0)"
    by (simp add: contents_l_of_def tv_loss_ex_flat)
  have ok: "compute_loss_Gatys ex_flat [] [ex_unit] [] [ex_gram0] =
              Inr ([], [Fin 20000], Fin 0, Fin 20000)"
    by code_simp
  note T = compute_loss_empty_styles [of ex_flat "[]" "[]" "[]"]
  have "compute_loss_Gatys ex_flat [] [] [] [] = Inl ZeroDivisionError"
    using T cG by blast
  moreover have "style_part_main [] [] = Inr (Fin 0) \<and>
      compute_loss_main ex_flat [] [] [] [] =
        Inr ([], [], Fin 0 * tv_weight, Fin 0 + py_sum [] + py_sum [Fin 0 * tv_weight])"
    using T cM by blast
  then have "style_part_main [] [] = Inr (Fin 0) \<and>
      compute_loss_main ex_flat [] [] [] [] = Inr ([], [], Fin 0, Fin 0)"
    by (simp add: tv_weight_def py_sum_def zero_fl_def)
  moreover have "[ex_unit] \<noteq> []"
    using compute_loss_empty_styles [of ex_flat "[]" "[]" "[ex_gram0]"] ok by blast
  ultimately show ?thesis
    using ok by blast
qed

section \<open>The truncated network\<close>

lemma le_foldl_max: "x \<le> foldl max x xs" for x :: int
proof (induction xs arbitrary: x)
  case Nil
  show ?case by simp
next
  case (Cons y ys)
  have "x \<le> max x y" by simp
  also have "\<dots> \<le> foldl max (max x y) ys" by (rule Cons.IH)
  finally show ?case by simp
qed

lemma member_le_foldl_max: "d \<in> set xs \<Longrightarrow> d \<le> foldl max x xs" for x :: int
proof (induction xs arbitrary: x)
  case Nil
  then show ?case by simp
next
  case (Cons y ys)
  show ?case
  proof (cases "d = y")
    case True
    have "d \<le> max x y" using True by simp
    also have "\<dots> \<le> foldl max (max x y) ys" by (rule le_foldl_max)
    finally show ?thesis by simp
  next
    case False
    with Cons.prems have "d \<in> set ys" by simp
    then show ?thesis by (simp add: Cons.IH)
  qed
qed

lemma py_max_upper: "py_max xs = Inr m \<Longrightarrow> d \<in> set xs \<Longrightarrow> d \<le> m"
  by (cases xs) (auto simp: le_foldl_max member_le_foldl_max)

lemma py_max_nonempty: "xs \<noteq> [] \<Longrightarrow> \<exists>m. py_max xs = Inr m"
  by (cases xs) simp_all

lemma traverse_fails:
  assumes "x \<in> set xs" "f x = Inl e" "\<And>y e'. y \<in> set xs \<Longrightarrow> f y = Inl e' \<Longrightarrow> e' = e"
  shows "traverse f xs = Inl e"
  using assms
proof (induction xs)
  case Nil
  then show ?case by simp
next
  case (Cons y ys)
  show ?case
  proof (cases "f y")
    case (Inl e')
    then have "e' = e" using Cons.prems(3) [of y e'] by simp
    then show ?thesis using Inl by (simp add: ebind_def)
  next
    case (Inr l)
    with Cons.prems have "x \<in> set ys" by auto
    then have "traverse f ys = Inl e"
      using Cons.prems by (intro Cons.IH) auto
    then show ?thesis using Inr by (simp add: ebind_def)
  qed
qed

lemma Incomplete_CNN_out_of_range:
  assumes d: "d \<in> set (Content_Layers @ Style_Layers)" and big: "int (length features) \<le> d"
  shows "Incomplete_CNN features Content_Layers Style_Layers = Inl IndexError"
proof -
  from d have "Content_Layers @ Style_Layers \<noteq> []" by auto
  then obtain m where m: "py_max (Content_Layers @ Style_Layers) = Inr m"
    using py_max_nonempty by blast
  have "d \<le> m" using m d by (rule py_max_upper)
  with big have "length features < nat (m + 1)" by simp
  then have "length features \<in> set [0..<nat (m + 1)]" by simp
  moreover have "get_layer features (length features) = Inl IndexError"
    by (simp add: get_layer_def)
  moreover have "e' = IndexError" if "get_layer features y = Inl e'" for y e'
    using that by (simp add: get_layer_def split: if_splits)
  ultimately have "traverse (get_layer features) [0..<nat (m + 1)] = Inl IndexError"
    by (intro traverse_fails) auto
  then show ?thesis
    by (simp add: Incomplete_CNN_def m ebind_def)
qed

lemma Incomplete_CNN_depth:
  assumes "Incomplete_CNN features Content_Layers Style_Layers = Inr layers"
    and d: "d \<in> set (Content_Layers @ Style_Layers)"
  shows "d < int (length layers)"
proof -
  from d have "Content_Layers @ Style_Layers \<noteq> []" by auto
  then obtain m where m: "py_max (Content_Layers @ Style_Layers) = Inr m"
    using py_max_nonempty by blast
  have dm: "d \<le> m" using m d by (rule py_max_upper)
  have "traverse (get_layer features) [0..<nat (m + 1)] = Inr layers"
    using assms(1) by (simp add: Incomplete_CNN_def m ebind_def)
  then have "length layers = nat (m + 1)"
    by (auto dest: length_traverse)
  with dm show ?thesis by auto
qed

lemma extract_loop_error_independent:
  "extract_loop i fs X cl sl cs ss = Inl e \<longleftrightarrow> extract_loop i' fs X cl' sl' cs' ss' = Inl e"
proof (induction fs arbitrary: i X cs ss i' cs' ss')
  case Nil
  show ?case by simp
next
  case (Cons f fs)
  show ?case
  proof (cases "f X")
    case (Inl e')
    then show ?thesis by (simp add: ebind_def)
  next
    case (Inr X')
    then show ?thesis
      using Cons.IH by (simp add: ebind_def Let_def)
  qed
qed

text \<open>
  C7. When a requested content or style depth is not a layer of the pretrained network, the
  construction of the truncated network raises \<open>IndexError\<close> while the module is loaded,
  and the run ends there, before any feature is extracted and before the optimization
  begins. When the construction succeeds, every requested depth is within the truncated
  network. Feature extraction reads no layer by a requested depth: whether it fails, and
  with which error, does not depend on the requested depths.
\<close>

theorem depth_out_of_range_fails_at_startup:
  assumes "\<exists>d\<in>set (Content_Layers @ Style_Layers). int (length features) \<le> d"
  shows "Incomplete_CNN features Content_Layers Style_Layers = Inl IndexError \<and>
         run_Gatys T features Content_Layers Style_Layers content_X style_X = Inl IndexError \<and>
         (\<forall>features' layers d. Incomplete_CNN features' Content_Layers Style_Layers = Inr layers \<and>
              d \<in> set (Content_Layers @ Style_Layers) \<longrightarrow> d < int (length layers)) \<and>
         (\<forall>layers X cl sl e.
            (extract_features layers X Content_Layers Style_Layers = Inl e) =
            (extract_features layers X cl sl = Inl e))"
proof -
  from assms obtain d where "d \<in> set (Content_Layers @ Style_Layers)" "int (length features) \<le> d"
    by blast
  then have 1: "Incomplete_CNN features Content_Layers Style_Layers = Inl IndexError"
    by (rule Incomplete_CNN_out_of_range)
  then have 2: "run_Gatys T features Content_Layers Style_Layers content_X style_X = Inl IndexError"
    by (simp add: run_Gatys_def ebind_def)
  have 3: "d < int (length layers)"
    if "Incomplete_CNN features' Content_Layers Style_Layers = Inr layers \<and>
        d \<in> set (Content_Layers @ Style_Layers)" for features' layers d
    using that Incomplete_CNN_depth by blast
  have 4: "(extract_features layers X Content_Layers Style_Layers = Inl e) =
           (extract_features layers X cl sl = Inl e)" for layers X cl sl e
    unfolding extract_features_def by (rule extract_loop_error_independent)
  from 1 2 3 4 show ?thesis by blast
qed

lemma Incomplete_CNN_ex:
  "Incomplete_CNN [Inr, Inr, Inr, Inr, Inr, Inr] [5] [0] = Inr [Inr, Inr, Inr, Inr, Inr, Inr]"
  by (simp add: Incomplete_CNN_def ebind_def get_layer_def upt_conv_Cons)

theorem depth_out_of_range_fails_at_startup_witness:
  "Incomplete_CNN [Inr, Inr] [5] [0] = Inl IndexError \<and>
   run_Gatys ex_torch [Inr, Inr] [5] [0] ex_flat ex_flat = Inl IndexError \<and>
   Incomplete_CNN [Inr, Inr, Inr, Inr, Inr, Inr] [5] [0] = Inr [Inr, Inr, Inr, Inr, Inr, Inr] \<and>
   (5 :: int) < int (length [Inr, Inr, Inr, Inr, Inr, Inr :: layer])"
proof -
  have "\<exists>d\<in>set ([5] @ [0]). int (length [Inr, Inr :: layer]) \<le> d"
    by simp
  note T = depth_out_of_range_fails_at_startup [OF this, of ex_torch ex_flat ex_flat]
  have "(5 :: int) \<in> set ([5] @ [0])"
    by simp
  with T Incomplete_CNN_ex have "(5 :: int) < int (length [Inr, Inr, Inr, Inr, Inr, Inr :: layer])"
    by blast
  with T Incomplete_CNN_ex show ?thesis
    by blast
qed

section \<open>Initialisation and the run of no epoch\<close>

lemma copy_into_same_shape:
  assumes "wf_tensor X" "shape dst = shape X"
  shows "copy_into dst X = Inr X"
proof -
  have "tabulate (shape X) (belem X) = tabulate (shape X) (elem X)"
    by (rule tabulate_cong) (rule belem_same)
  then show ?thesis
    using assms by (simp add: copy_into_def broadcast_shapes_same tabulate_elem)
qed

lemma get_inits_Gatys_copy:
  assumes wf: "wf_tensor X" and ne: "shape X \<noteq> []" and tr: "mk_trainer T LBFGS lr = Inr st"
    and g: "traverse gram styles_Y = Inr styles_Y_gram"
  shows "get_inits_Gatys T X lr styles_Y = Inr (X, styles_Y_gram, \<lparr>kind = LBFGS, ostate = st\<rparr>)"
proof -
  have "copy_into \<lparr>shape = shape X, data = rand T (shape X)\<rparr> X = Inr X"
    using wf by (rule copy_into_same_shape) simp
  then show ?thesis
    using ne by (simp add: get_inits_Gatys_def SynthesizedImage_Gatys_def tr g ebind_def)
qed

text \<open>
  C8. For every content image tensor \<open>X\<close>, of shape \<open>(B, C, H, W)\<close>, when the optimizer
  and the scheduler are created and the Gram matrices of the style references are computed
  without an error, \<open>get_inits\<close> installs \<open>X\<close> itself as the synthesized image, and
  \<open>train\<close> with \<open>0\<close> epochs returns it unchanged, having logged nothing.
\<close>

theorem train_zero_epochs:
  assumes s: "shape X = [B, C, H, W]" and wf: "wf_tensor X"
    and tr: "mk_trainer T LBFGS lr = Inr st"
    and g: "traverse gram styles_Y = Inr styles_Y_gram"
    and sch: "mk_scheduler T st lr_decay_epoch = Inr st'"
  shows "get_inits_Gatys T X lr styles_Y = Inr (X, styles_Y_gram, \<lparr>kind = LBFGS, ostate = st\<rparr>) \<and>
         train_Gatys T G X contents_Y styles_Y lr 0 lr_decay_epoch = Inr (X, [])"
proof -
  have "shape X \<noteq> []"
    using s by simp
  from get_inits_Gatys_copy [OF wf this tr g] show ?thesis
    by (simp add: train_Gatys_def sch ebind_def)
qed

lemma gram_ex_unit: "traverse gram [ex_unit] = Inr [\<lparr>shape = [1, 1], data = [Fin 4]\<rparr>]"
  by code_simp

theorem train_zero_epochs_witness:
  "train_Gatys ex_torch ex_globals ex_act [ex_act] [ex_unit] (1 / 2) 0 50 = Inr (ex_act, [])"
proof -
  have s: "shape ex_act = [1, 2, 2, 2]"
    by (simp add: ex_act_def)
  have wf: "wf_tensor ex_act"
    by (simp add: ex_act_def wf_tensor_def numel_def)
  have tr: "mk_trainer ex_torch LBFGS (1 / 2) = Inr ()"
    by (simp add: ex_torch_def)
  have sch: "mk_scheduler ex_torch () 50 = Inr ()"
    by (simp add: ex_torch_def)
  from train_zero_epochs [OF s wf tr gram_ex_unit sch] show ?thesis
    by blast
qed

section \<open>The training loop and the loss it logs\<close>

lemma log_steps_append: "log_steps (xs @ ys) = log_steps xs @ log_steps ys"
  by (induction xs rule: log_steps.induct) simp_all

lemma train_loop_steps:
  assumes "P s"
    and "\<And>e s. P s \<Longrightarrow> \<exists>s'. body e s = Inr s' \<and> P s' \<and> steps s' = steps s @ [e]"
  shows "\<exists>s'. train_loop body es s = Inr s' \<and> P s' \<and> steps s' = steps s @ es"
  using assms(1)
proof (induction es arbitrary: s)
  case Nil
  then show ?case by simp
next
  case (Cons e es)
  from assms(2) [OF Cons.prems] obtain s1
    where s1: "body e s = Inr s1" "P s1" "steps s1 = steps s @ [e]"
    by blast
  from Cons.IH [OF s1(2)] obtain s2
    where s2: "train_loop body es s1 = Inr s2" "P s2" "steps s2 = steps s1 @ es"
    by blast
  show ?case
    using s1 s2 by (simp add: ebind_def)
qed

text \<open>An iteration whose operations return does return, whatever the loss is.\<close>

lemma epoch_Gatys_LBFGS:
  assumes "kind trainer = LBFGS"
    and "step T (total_loss_Gatys G contents_Y styles_Y_gram) X (ostate trainer) = Inr (X', st1)"
    and "total_loss_Gatys G contents_Y styles_Y_gram X' = Inr loss"
    and "snapshot T X' = Inr img"
    and "scheduler_step T st1 = Inr st'"
  shows "epoch_Gatys T G contents_Y styles_Y_gram epoch (X, trainer, logs) =
           Inr (X', trainer\<lparr>ostate := st'\<rparr>,
                logs @ Scalar epoch loss #
                  (if (epoch + 1) mod 20 = 0 then [Image ((epoch + 1) div 20) img] else []))"
  using assms by (simp add: epoch_Gatys_def ebind_def)

lemma epoch_main_Adam:
  assumes "total_loss_main G contents_Y styles_Y_gram X = Inr loss"
    and "step T (total_loss_main G contents_Y styles_Y_gram) X (ostate trainer) = Inr (X', st1)"
    and "scheduler_step T st1 = Inr st'"
  shows "epoch_main T G contents_Y styles_Y_gram epoch (X, trainer, logs) =
           Inr (X', trainer\<lparr>ostate := st'\<rparr>, logs @ [Scalar epoch loss])"
  using assms by (simp add: epoch_main_def ebind_def)

lemma get_inits_Gatys_kind:
  "get_inits_Gatys T X lr styles_Y = Inr (X0, sg, tr0) \<Longrightarrow> kind tr0 = LBFGS"
  by (auto simp: get_inits_Gatys_def ebind_def split: sum.splits)

lemma train_Gatys_all_epochs:
  assumes init: "get_inits_Gatys T X lr styles_Y = Inr (X0, sg, tr0)"
    and sch: "mk_scheduler T (ostate tr0) lr_decay_epoch = Inr st0"
    and I0: "I X0 st0"
    and ops: "\<forall>X st. I X st \<longrightarrow>
        (\<exists>X' st1 loss img st'.
           step T (total_loss_Gatys G contents_Y sg) X st = Inr (X', st1) \<and>
           total_loss_Gatys G contents_Y sg X' = Inr loss \<and>
           snapshot T X' = Inr img \<and>
           scheduler_step T st1 = Inr st' \<and> I X' st')"
  shows "\<exists>X' logs. train_Gatys T G X contents_Y styles_Y lr num_epochs lr_decay_epoch = Inr (X', logs) \<and>
           log_steps logs = [0..<nat num_epochs]"
proof -
  define P where "P s = (case s of (X, tr, logs) \<Rightarrow> I X (ostate tr) \<and> kind tr = LBFGS)"
    for s :: "tensor \<times> 'a trainer \<times> log_entry list"
  define steps where "steps s = (case s of (X, tr, logs) \<Rightarrow> log_steps logs)"
    for s :: "tensor \<times> 'a trainer \<times> log_entry list"
  have body: "\<exists>s'. epoch_Gatys T G contents_Y sg e s = Inr s' \<and> P s' \<and> steps s' = steps s @ [e]"
    if "P s" for e s
  proof -
    obtain X tr logs where s: "s = (X, tr, logs)"
      by (cases s) auto
    from that s have I: "I X (ostate tr)" and k: "kind tr = LBFGS"
      by (simp_all add: P_def)
    from ops I obtain X' st1 loss img st' where o:
      "step T (total_loss_Gatys G contents_Y sg) X (ostate tr) = Inr (X', st1)"
      "total_loss_Gatys G contents_Y sg X' = Inr loss"
      "snapshot T X' = Inr img"
      "scheduler_step T st1 = Inr st'" "I X' st'"
      by blast
    show ?thesis
      unfolding s epoch_Gatys_LBFGS [OF k o(1-4)]
      using o(5) k by (simp add: P_def steps_def log_steps_append)
  qed
  have "P (X0, tr0\<lparr>ostate := st0\<rparr>, [])"
    using I0 get_inits_Gatys_kind [OF init] by (simp add: P_def)
  from train_loop_steps [of P _ "epoch_Gatys T G contents_Y sg" steps, OF this body]
  obtain s' where s': "train_loop (epoch_Gatys T G contents_Y sg) [0..<nat num_epochs]
        (X0, tr0\<lparr>ostate := st0\<rparr>, []) = Inr s'"
      "steps s' = steps (X0, tr0\<lparr>ostate := st0\<rparr>, []) @ [0..<nat num_epochs]"
    by blast
  obtain X' tr' logs where "s' = (X', tr', logs)"
    by (cases s') auto
  with s' show ?thesis
    by (simp add: train_Gatys_def init sch ebind_def steps_def)
qed

lemma train_main_all_epochs:
  assumes init: "get_inits_main T content_pre X lr styles_Y = Inr (X0, sg, tr0)"
    and sch: "mk_scheduler T (ostate tr0) lr_decay_epoch = Inr st0"
    and I0: "I X0 st0"
    and ops: "\<forall>X st. I X st \<longrightarrow>
        (\<exists>loss X' st1 st'.
           total_loss_main G contents_Y sg X = Inr loss \<and>
           step T (total_loss_main G contents_Y sg) X st = Inr (X', st1) \<and>
           scheduler_step T st1 = Inr st' \<and> I X' st')"
  shows "\<exists>X' logs. train_main T G content_pre X contents_Y styles_Y lr num_epochs lr_decay_epoch =
             Inr (X', logs) \<and>
           log_steps logs = [0..<nat num_epochs]"
proof -
  define P where "P s = (case s of (X, tr, logs) \<Rightarrow> I X (ostate tr))"
    for s :: "tensor \<times> 'a trainer \<times> log_entry list"
  define steps where "steps s = (case s of (X, tr, logs) \<Rightarrow> log_steps logs)"
    for s :: "tensor \<times> 'a trainer \<times> log_entry list"
  have body: "\<exists>s'. epoch_main T G contents_Y sg e s = Inr s' \<and> P s' \<and> steps s' = steps s @ [e]"
    if "P s" for e s
  proof -
    obtain X tr logs where s: "s = (X, tr, logs)"
      by (cases s) auto
    from that s have I: "I X (ostate tr)"
      by (simp add: P_def)
    from ops I obtain loss X' st1 st' where o:
      "total_loss_main G contents_Y sg X = Inr loss"
      "step T (total_loss_main G contents_Y sg) X (ostate tr) = Inr (X', st1)"
      "scheduler_step T st1 = Inr st'" "I X' st'"
      by blast
    show ?thesis
      unfolding s epoch_main_Adam [OF o(1-3)]
      using o(4) by (simp add: P_def steps_def log_steps_append)
  qed
  have "P (X0, tr0\<lparr>ostate := st0\<rparr>, [])"
    using I0 by (simp add: P_def)
  from train_loop_steps [of P _ "epoch_main T G contents_Y sg" steps, OF this body]
  obtain s' where s': "train_loop (epoch_main T G contents_Y sg) [0..<nat num_epochs]
        (X0, tr0\<lparr>ostate := st0\<rparr>, []) = Inr s'"
      "steps s' = steps (X0, tr0\<lparr>ostate := st0\<rparr>, []) @ [0..<nat num_epochs]"
    by blast
  obtain X' tr' logs where "s' = (X', tr', logs)"
    by (cases s') auto
  with s' show ?thesis
    by (simp add: train_main_def init sch ebind_def steps_def)
qed

text \<open>
  C6, as amended. The training loop does not look at the loss. An iteration whose total loss
  is not a number returns like any other, once its optimizer step, its snapshot and its
  scheduler step return, and writes that loss to the log under its epoch; and a run in which
  these operations and the computation of the loss return at every state it reaches performs
  all its epochs and returns, with one logged loss per epoch, whatever the losses are. This
  holds for \<open>train\<close> of \<open>Gatys.py\<close> and for \<open>train\<close> of \<open>main.py\<close>.
\<close>

theorem train_does_not_check_loss:
  "(kind trainer = LBFGS \<and>
    step T (total_loss_Gatys G contents_Y styles_Y_gram) X (ostate trainer) = Inr (X', st_next) \<and>
    total_loss_Gatys G contents_Y styles_Y_gram X' = Inr NaN \<and>
    snapshot T X' = Inr img \<and> scheduler_step T st_next = Inr st'
    \<longrightarrow> epoch_Gatys T G contents_Y styles_Y_gram epoch (X, trainer, logs) =
          Inr (X', trainer\<lparr>ostate := st'\<rparr>,
               logs @ Scalar epoch NaN #
                 (if (epoch + 1) mod 20 = 0 then [Image ((epoch + 1) div 20) img] else []))) \<and>
   (total_loss_main G contents_Y styles_Y_gram X = Inr NaN \<and>
    step T (total_loss_main G contents_Y styles_Y_gram) X (ostate trainer) = Inr (X', st_next) \<and>
    scheduler_step T st_next = Inr st'
    \<longrightarrow> epoch_main T G contents_Y styles_Y_gram epoch (X, trainer, logs) =
          Inr (X', trainer\<lparr>ostate := st'\<rparr>, logs @ [Scalar epoch NaN])) \<and>
   (get_inits_Gatys T X lr styles_Y = Inr (X_init, sg, trainer_init) \<and>
    mk_scheduler T (ostate trainer_init) lr_decay_epoch = Inr st_init \<and> I X_init st_init \<and>
    (\<forall>X st. I X st \<longrightarrow>
        (\<exists>X' st_next loss img st'.
           step T (total_loss_Gatys G contents_Y sg) X st = Inr (X', st_next) \<and>
           total_loss_Gatys G contents_Y sg X' = Inr loss \<and>
           snapshot T X' = Inr img \<and>
           scheduler_step T st_next = Inr st' \<and> I X' st'))
    \<longrightarrow> (\<exists>X' logs.
           train_Gatys T G X contents_Y styles_Y lr num_epochs lr_decay_epoch = Inr (X', logs) \<and>
           log_steps logs = [0..<nat num_epochs])) \<and>
   (get_inits_main T content_pre X lr styles_Y = Inr (X_init, sg, trainer_init) \<and>
    mk_scheduler T (ostate trainer_init) lr_decay_epoch = Inr st_init \<and> I X_init st_init \<and>
    (\<forall>X st. I X st \<longrightarrow>
        (\<exists>loss X' st_next st'.
           total_loss_main G contents_Y sg X = Inr loss \<and>
           step T (total_loss_main G contents_Y sg) X st = Inr (X', st_next) \<and>
           scheduler_step T st_next = Inr st' \<and> I X' st'))
    \<longrightarrow> (\<exists>X' logs.
           train_main T G content_pre X contents_Y styles_Y lr num_epochs lr_decay_epoch =
             Inr (X', logs) \<and>
           log_steps logs = [0..<nat num_epochs]))"
proof (intro conjI impI)
  assume "kind trainer = LBFGS \<and>
    step T (total_loss_Gatys G contents_Y styles_Y_gram) X (ostate trainer) = Inr (X', st_next) \<and>
    total_loss_Gatys G contents_Y styles_Y_gram X' = Inr NaN \<and>
    snapshot T X' = Inr img \<and> scheduler_step T st_next = Inr st'"
  then show "epoch_Gatys T G contents_Y styles_Y_gram epoch (X, trainer, logs) =
          Inr (X', trainer\<lparr>ostate := st'\<rparr>,
               logs @ Scalar epoch NaN #
                 (if (epoch + 1) mod 20 = 0 then [Image ((epoch + 1) div 20) img] else []))"
    by (intro epoch_Gatys_LBFGS) blast+
next
  assume "total_loss_main G contents_Y styles_Y_gram X = Inr NaN \<and>
    step T (total_loss_main G contents_Y styles_Y_gram) X (ostate trainer) = Inr (X', st_next) \<and>
    scheduler_step T st_next = Inr st'"
  then show "epoch_main T G contents_Y styles_Y_gram epoch (X, trainer, logs) =
          Inr (X', trainer\<lparr>ostate := st'\<rparr>, logs @ [Scalar epoch NaN])"
    by (intro epoch_main_Adam) blast+
next
  assume a: "get_inits_Gatys T X lr styles_Y = Inr (X_init, sg, trainer_init) \<and>
    mk_scheduler T (ostate trainer_init) lr_decay_epoch = Inr st_init \<and> I X_init st_init \<and>
    (\<forall>X st. I X st \<longrightarrow>
        (\<exists>X' st_next loss img st'.
           step T (total_loss_Gatys G contents_Y sg) X st = Inr (X', st_next) \<and>
           total_loss_Gatys G contents_Y sg X' = Inr loss \<and>
           snapshot T X' = Inr img \<and>
           scheduler_step T st_next = Inr st' \<and> I X' st'))"
  show "\<exists>X' logs.
           train_Gatys T G X contents_Y styles_Y lr num_epochs lr_decay_epoch = Inr (X', logs) \<and>
           log_steps logs = [0..<nat num_epochs]"
    by (rule train_Gatys_all_epochs [of T X lr styles_Y X_init sg trainer_init lr_decay_epoch st_init I G contents_Y])
      (use a in blast)+
next
  assume a: "get_inits_main T content_pre X lr styles_Y = Inr (X_init, sg, trainer_init) \<and>
    mk_scheduler T (ostate trainer_init) lr_decay_epoch = Inr st_init \<and> I X_init st_init \<and>
    (\<forall>X st. I X st \<longrightarrow>
        (\<exists>loss X' st_next st'.
           total_loss_main G contents_Y sg X = Inr loss \<and>
           step T (total_loss_main G contents_Y sg) X st = Inr (X', st_next) \<and>
           scheduler_step T st_next = Inr st' \<and> I X' st'))"
  show "\<exists>X' logs.
           train_main T G content_pre X contents_Y styles_Y lr num_epochs lr_decay_epoch =
             Inr (X', logs) \<and>
           log_steps logs = [0..<nat num_epochs]"
    by (rule train_main_all_epochs [of T content_pre X lr styles_Y X_init sg trainer_init lr_decay_epoch st_init I G contents_Y])
      (use a in blast)+
qed

lemma total_loss_Gatys_ex: "total_loss_Gatys ex_globals [ex_pixel] [ex_gram9] ex_pixel = Inr NaN"
  by code_simp

lemma total_loss_main_ex: "total_loss_main ex_globals [ex_pixel] [ex_gram9] ex_pixel = Inr NaN"
  by code_simp

lemma get_inits_Gatys_ex:
  "get_inits_Gatys ex_torch ex_pixel (1 / 2) [ex_pixel] =
     Inr (ex_pixel, [ex_gram9], \<lparr>kind = LBFGS, ostate = ()\<rparr>)"
  by code_simp

lemma get_inits_main_ex:
  "get_inits_main ex_torch ex_pixel ex_pixel (1 / 2) [ex_pixel] =
     Inr (ex_pixel, [ex_gram9], \<lparr>kind = Adam, ostate = ()\<rparr>)"
  by code_simp

text \<open>
  A run whose loss is not a number at every step: on an image of one pixel both loops run
  their three epochs, log the loss three times and return the image.
\<close>

theorem train_does_not_check_loss_counterexample:
  "total_loss_Gatys ex_globals [ex_pixel] [ex_gram9] ex_pixel = Inr NaN \<and>
   train_Gatys ex_torch ex_globals ex_pixel [ex_pixel] [ex_pixel] (1 / 2) 3 50 =
     Inr (ex_pixel, [Scalar 0 NaN, Scalar 1 NaN, Scalar 2 NaN]) \<and>
   total_loss_main ex_globals [ex_pixel] [ex_gram9] ex_pixel = Inr NaN \<and>
   train_main ex_torch ex_globals ex_pixel ex_pixel [ex_pixel] [ex_pixel] (1 / 2) 3 50 =
     Inr (ex_pixel, [Scalar 0 NaN, Scalar 1 NaN, Scalar 2 NaN])"
  by code_simp

theorem train_does_not_check_loss_witness:
  "epoch_Gatys ex_torch ex_globals [ex_pixel] [ex_gram9] 0
       (ex_pixel, \<lparr>kind = LBFGS, ostate = ()\<rparr>, []) =
     Inr (ex_pixel, \<lparr>kind = LBFGS, ostate = ()\<rparr>, [Scalar 0 NaN]) \<and>
   epoch_main ex_torch ex_globals [ex_pixel] [ex_gram9] 0
       (ex_pixel, \<lparr>kind = Adam, ostate = ()\<rparr>, []) =
     Inr (ex_pixel, \<lparr>kind = Adam, ostate = ()\<rparr>, [Scalar 0 NaN]) \<and>
   (\<exists>X' logs. train_Gatys ex_torch ex_globals ex_pixel [ex_pixel] [ex_pixel] (1 / 2) 3 50 =
        Inr (X', logs) \<and> log_steps logs = [0, 1, 2]) \<and>
   (\<exists>X' logs. train_main ex_torch ex_globals ex_pixel ex_pixel [ex_pixel] [ex_pixel] (1 / 2) 3 50 =
        Inr (X', logs) \<and> log_steps logs = [0, 1, 2])"
proof -
  have stepG: "step ex_torch (total_loss_Gatys ex_globals [ex_pixel] [ex_gram9]) ex_pixel () =
                 Inr (ex_pixel, ())"
    by (simp add: ex_torch_def total_loss_Gatys_ex ebind_def)
  have stepM: "step ex_torch (total_loss_main ex_globals [ex_pixel] [ex_gram9]) ex_pixel () =
                 Inr (ex_pixel, ())"
    by (simp add: ex_torch_def total_loss_main_ex ebind_def)
  have snap: "snapshot ex_torch ex_pixel = Inr ex_pixel"
    and sched: "scheduler_step ex_torch () = Inr ()"
    and mks: "mk_scheduler ex_torch () 50 = Inr ()"
    by (simp_all add: ex_torch_def)
  have opsG: "\<forall>X st. X = ex_pixel \<longrightarrow>
        (\<exists>X' st1 loss img st'.
           step ex_torch (total_loss_Gatys ex_globals [ex_pixel] [ex_gram9]) X st = Inr (X', st1) \<and>
           total_loss_Gatys ex_globals [ex_pixel] [ex_gram9] X' = Inr loss \<and>
           snapshot ex_torch X' = Inr img \<and>
           scheduler_step ex_torch st1 = Inr st' \<and> X' = ex_pixel)"
    using stepG total_loss_Gatys_ex snap sched by auto
  have opsM: "\<forall>X st. X = ex_pixel \<longrightarrow>
        (\<exists>loss X' st1 st'.
           total_loss_main ex_globals [ex_pixel] [ex_gram9] X = Inr loss \<and>
           step ex_torch (total_loss_main ex_globals [ex_pixel] [ex_gram9]) X st = Inr (X', st1) \<and>
           scheduler_step ex_torch st1 = Inr st' \<and> X' = ex_pixel)"
    using stepM total_loss_main_ex sched by auto
  note T = train_does_not_check_loss [where T = ex_torch and G = ex_globals
      and contents_Y = "[ex_pixel]" and styles_Y_gram = "[ex_gram9]" and X = ex_pixel
      and X' = ex_pixel and st_next = "()" and st' = "()" and img = ex_pixel and epoch = 0
      and logs = "[]" and lr = "1 / 2" and styles_Y = "[ex_pixel]" and X_init = ex_pixel
      and sg = "[ex_gram9]" and lr_decay_epoch = 50 and st_init = "()"
      and I = "\<lambda>X st. X = ex_pixel" and num_epochs = 3 and content_pre = ex_pixel]
  have 1: "epoch_Gatys ex_torch ex_globals [ex_pixel] [ex_gram9] 0
       (ex_pixel, \<lparr>kind = LBFGS, ostate = ()\<rparr>, []) =
     Inr (ex_pixel, \<lparr>kind = LBFGS, ostate = ()\<rparr>, [Scalar 0 NaN])"
    using T [where trainer = "\<lparr>kind = LBFGS, ostate = ()\<rparr>" and trainer_init = "\<lparr>kind = LBFGS, ostate = ()\<rparr>"]
      stepG total_loss_Gatys_ex snap sched by simp
  have 2: "epoch_main ex_torch ex_globals [ex_pixel] [ex_gram9] 0
       (ex_pixel, \<lparr>kind = Adam, ostate = ()\<rparr>, []) =
     Inr (ex_pixel, \<lparr>kind = Adam, ostate = ()\<rparr>, [Scalar 0 NaN])"
    using T [where trainer = "\<lparr>kind = Adam, ostate = ()\<rparr>" and trainer_init = "\<lparr>kind = Adam, ostate = ()\<rparr>"]
      stepM total_loss_main_ex sched by simp
  have n3: "[0..<nat 3] = [0, 1, 2]"
    by (simp add: upt_conv_Cons)
  have 3: "\<exists>X' logs. train_Gatys ex_torch ex_globals ex_pixel [ex_pixel] [ex_pixel] (1 / 2) 3 50 =
        Inr (X', logs) \<and> log_steps logs = [0, 1, 2]"
    using T [where trainer = "\<lparr>kind = LBFGS, ostate = ()\<rparr>" and trainer_init = "\<lparr>kind = LBFGS, ostate = ()\<rparr>"]
      get_inits_Gatys_ex mks opsG unfolding n3 by simp
  have 4: "\<exists>X' logs. train_main ex_torch ex_globals ex_pixel ex_pixel [ex_pixel] [ex_pixel] (1 / 2) 3 50 =
        Inr (X', logs) \<and> log_steps logs = [0, 1, 2]"
    using T [where trainer = "\<lparr>kind = Adam, ostate = ()\<rparr>" and trainer_init = "\<lparr>kind = Adam, ostate = ()\<rparr>"]
      get_inits_main_ex mks opsM unfolding n3 by simp
  from 1 2 3 4 show ?thesis by blast
qed

section \<open>The Gram matrix of an activation tensor\<close>




end
